theory Spec2Isabelle
  imports Main
begin

section \<open>The data model of the updater\<close>

text \<open>
  The records of \<^verbatim>\<open>auto-updater.service.ts\<close> and of the controller come first, so that
  the unqualified field names \<open>status\<close>, \<open>message\<close> and \<open>component\<close> below mean those of
  \<open>DiagnosticCheck\<close>, \<open>js_error\<close> and \<open>UpdateCheckResult\<close>.
\<close>

datatype updater_status = Idle | Checking | Installing | Repairing | Done | Failed

record Progress =
  status :: updater_status
  message :: string
  progress :: int
  component :: "string option"

text \<open>The JSON body that \<open>runUpdater\<close> answers with.\<close>

record UpdaterResponse =
  message :: string
  status :: string

record UpdateResult =
  component :: string
  previousVersion :: string
  newVersion :: string
  success :: bool
  logOutput :: string

record UpdateCheckResult =
  component :: string
  currentVersion :: string
  latestVersion :: string
  updateAvailable :: bool

text \<open>What \<open>checkAndInstallAll\<close> returns.\<close>

record CycleResult =
  results :: "UpdateResult list"
  diagnosticsStatus :: string

text \<open>A row of \<^verbatim>\<open>update_history\<close>, as \<open>saveUpdateHistory\<close> inserts it.\<close>

record history_row =
  h_component :: string
  h_previous_version :: string
  h_new_version :: string
  h_status :: string
  h_log_output :: string

section \<open>Shared vocabulary\<close>

text \<open>
  A JavaScript exception is modelled by the \<^verbatim>\<open>Error\<close> object that is thrown; the
  code only ever reads its \<^verbatim>\<open>message\<close>. A call that may throw (or a promise that may
  reject) returns \<open>js_error + 'a\<close>, with \<open>Inl\<close> for the exception.
  Logger output is not part of the model.
\<close>

datatype js_error = JsError (message: string)

text \<open>The characters of the source's string literals that are not ASCII, as UTF-8 bytes.\<close>

definition hellip :: string where
  "hellip = [CHR 0xE2, CHR 0x80, CHR 0xA6]"

definition ndash :: string where
  "ndash = [CHR 0xE2, CHR 0x80, CHR 0x93]"

definition newline :: string where
  "newline = [CHR 0x0A]"

section \<open>Mail diagnostics service: the data model\<close>

datatype check_status = OK | WARNING | ERROR

text \<open>A value of the \<^verbatim>\<open>details: Record<string, unknown>\<close> map.\<close>

datatype detail = DString string | DNumber int | DBool bool

record DiagnosticCheck =
  checkType :: string
  status :: check_status
  details :: "(string \<times> detail) list"
  errorMsg :: "string option"
  durationMs :: int

text \<open>
  What \<^verbatim>\<open>socket.getPeerCertificate()\<close> gives: \<open>valid_to\<close> is the expiry date as
  \<^verbatim>\<open>new Date(cert.valid_to).getTime()\<close> reads it, in milliseconds, and \<open>None\<close> when the
  date does not parse (\<^verbatim>\<open>NaN\<close>); \<open>subjectCN\<close> is \<^verbatim>\<open>cert.subject?.CN\<close>.
\<close>

record PeerCertificate =
  valid_to :: "int option"
  subjectCN :: "string option"

section \<open>The four health checks\<close>

text \<open>\<^verbatim>\<open>!user\<close> on a \<^verbatim>\<open>string | undefined\<close>: undefined and the empty string are falsy.\<close>

definition falsy :: "string option \<Rightarrow> bool" where
  "falsy v = (case v of None \<Rightarrow> True | Some s \<Rightarrow> s = [])"

text \<open>
  \<open>checkSmtp host port user pass verify start fin\<close>: the configuration values as
  \<^verbatim>\<open>configService.get\<close> returns them, the outcome \<open>verify\<close> of creating the transport,
  \<^verbatim>\<open>transporter.verify()\<close> and \<^verbatim>\<open>transporter.close()\<close>, and the two readings of
  \<^verbatim>\<open>Date.now()\<close>.
\<close>

definition checkSmtp ::
  "string \<Rightarrow> int \<Rightarrow> string option \<Rightarrow> string option \<Rightarrow> js_error + unit \<Rightarrow> int \<Rightarrow> int
   \<Rightarrow> DiagnosticCheck" where
  "checkSmtp host port user pass verify start fin =
     (if falsy user \<or> falsy pass then
        \<lparr>checkType = ''smtp_send'', status = WARNING,
         details = [(''host'', DString host), (''port'', DNumber port),
                    (''configured'', DBool False)],
         errorMsg = Some ''SMTP credentials not configured'',
         durationMs = fin - start\<rparr>
      else
        (case verify of
           Inr u \<Rightarrow>
             \<lparr>checkType = ''smtp_send'', status = OK,
              details = [(''host'', DString host), (''port'', DNumber port),
                         (''verified'', DBool True)],
              errorMsg = None,
              durationMs = fin - start\<rparr>
         | Inl err \<Rightarrow>
             \<lparr>checkType = ''smtp_send'', status = ERROR,
              details = [],
              errorMsg = Some (message err),
              durationMs = fin - start\<rparr>))"

text \<open>
  \<open>checkImap\<close>: \<open>session\<close> is the outcome of \<^verbatim>\<open>imaps.connect\<close>, \<^verbatim>\<open>conn.getBoxes()\<close>
  and \<^verbatim>\<open>conn.end()\<close>, giving the number of mailboxes.
\<close>

definition checkImap ::
  "string \<Rightarrow> int \<Rightarrow> string option \<Rightarrow> string option \<Rightarrow> js_error + nat \<Rightarrow> int \<Rightarrow> int
   \<Rightarrow> DiagnosticCheck" where
  "checkImap host port user pass session start fin =
     (if falsy user \<or> falsy pass then
        \<lparr>checkType = ''imap_login'', status = WARNING,
         details = [(''host'', DString host), (''port'', DNumber port),
                    (''configured'', DBool False)],
         errorMsg = Some ''IMAP credentials not configured'',
         durationMs = fin - start\<rparr>
      else
        (case session of
           Inr mailboxCount \<Rightarrow>
             \<lparr>checkType = ''imap_login'', status = OK,
              details = [(''host'', DString host), (''port'', DNumber port),
                         (''mailboxCount'', DNumber (int mailboxCount))],
              errorMsg = None,
              durationMs = fin - start\<rparr>
         | Inl err \<Rightarrow>
             \<lparr>checkType = ''imap_login'', status = ERROR,
              details = [],
              errorMsg = Some (message err),
              durationMs = fin - start\<rparr>))"

text \<open>
  \<^verbatim>\<open>Math.floor((expiryDate.getTime() - Date.now()) / (1000 * 60 * 60 * 24))\<close>,
  on integers (\<open>div\<close> on \<open>int\<close> rounds down, as \<^verbatim>\<open>Math.floor\<close> does).
\<close>

definition daysUntilExpiry :: "int \<Rightarrow> int \<Rightarrow> int" where
  "daysUntilExpiry expiry now = (expiry - now) div (1000 * 60 * 60 * 24)"

text \<open>
  \<open>checkSslCertificate host peer start now fin\<close>: \<open>peer\<close> is the outcome of the TLS
  connection (\<open>Inl\<close> on a socket error or on the 8 second timeout). A date that does not
  parse makes \<^verbatim>\<open>expiryDate.toISOString()\<close> throw a \<^verbatim>\<open>RangeError\<close>, which the
  \<^verbatim>\<open>catch\<close> turns into an error result. \<^verbatim>\<open>expiresAt\<close> is kept as the timestamp.
\<close>

definition checkSslCertificate ::
  "string \<Rightarrow> js_error + PeerCertificate \<Rightarrow> int \<Rightarrow> int \<Rightarrow> int \<Rightarrow> DiagnosticCheck" where
  "checkSslCertificate host peer start now fin =
     (case peer of
        Inl err \<Rightarrow>
          \<lparr>checkType = ''ssl_cert'', status = ERROR,
           details = [],
           errorMsg = Some (message err),
           durationMs = fin - start\<rparr>
      | Inr cert \<Rightarrow>
          (case valid_to cert of
             None \<Rightarrow>
               \<lparr>checkType = ''ssl_cert'', status = ERROR,
                details = [],
                errorMsg = Some (message (JsError ''Invalid time value'')),
                durationMs = fin - start\<rparr>
           | Some expiry \<Rightarrow>
               \<lparr>checkType = ''ssl_cert'',
                status = (if daysUntilExpiry expiry now > 14 then OK
                          else if daysUntilExpiry expiry now > 7 then WARNING else ERROR),
                details = [(''host'', DString host),
                           (''subject'', DString (case subjectCN cert of
                                                    None \<Rightarrow> ''unknown'' | Some cn \<Rightarrow> cn)),
                           (''expiresAt'', DNumber expiry),
                           (''daysUntilExpiry'', DNumber (daysUntilExpiry expiry now))],
                errorMsg = None,
                durationMs = fin - start\<rparr>))"

text \<open>\<open>checkRoundcubeHealth url response start fin\<close>: \<open>response\<close> is the status code of
  the HTTP GET, or the error or timeout of the request.\<close>

definition checkRoundcubeHealth ::
  "string \<Rightarrow> js_error + int \<Rightarrow> int \<Rightarrow> int \<Rightarrow> DiagnosticCheck" where
  "checkRoundcubeHealth roundcubeUrl response start fin =
     (case response of
        Inr statusCode \<Rightarrow>
          \<lparr>checkType = ''roundcube_health'',
           status = (if statusCode = 200 then OK
                     else if statusCode < 500 then WARNING else ERROR),
           details = [(''url'', DString roundcubeUrl), (''statusCode'', DNumber statusCode)],
           errorMsg = None,
           durationMs = fin - start\<rparr>
      | Inl err \<Rightarrow>
          \<lparr>checkType = ''roundcube_health'', status = ERROR,
           details = [],
           errorMsg = Some (message err),
           durationMs = fin - start\<rparr>)"

section \<open>The diagnostics engine\<close>

record DiagnosticsReport =
  timestamp :: int
  overall :: check_status
  checks :: "DiagnosticCheck list"
  repairsAttempted :: "string list"

text \<open>
  A \<^verbatim>\<open>PromiseSettledResult\<close>: the value of a fulfilled promise, or the rejection reason,
  read as \<^verbatim>\<open>reason?.message\<close> (\<open>None\<close> when the reason has no message).
\<close>

datatype 'a settled = Fulfilled 'a | Rejected "string option"

text \<open>
  The state shared by the two services: the updater's busy flag and progress record, the
  diagnostics service's maintenance flag, whether the \<^verbatim>\<open>email-processing\<close> queue is
  paused, and the two audit tables (rows in insertion order).
\<close>

record system =
  isUpdating :: bool
  updateProgress :: Progress
  maintenanceMode :: bool
  queuePaused :: bool
  mail_diagnostics :: "DiagnosticCheck list"
  update_history :: "history_row list"

text \<open>
  What one run of \<open>runFullDiagnostics\<close> meets outside the process: the four settled
  promises of \<^verbatim>\<open>Promise.allSettled\<close>, the outcome of the \<^verbatim>\<open>INSERT\<close> for the check at
  each position, the outcome of the \<^verbatim>\<open>SELECT\<close> of \<open>logBeforeAfterReport\<close> (rows of
  \<^verbatim>\<open>check_type, status\<close>), and the clock.
\<close>

record diag_env =
  smtp :: "DiagnosticCheck settled"
  imap :: "DiagnosticCheck settled"
  ssl :: "DiagnosticCheck settled"
  roundcube :: "DiagnosticCheck settled"
  insert_check :: "nat \<Rightarrow> js_error option"
  select_previous :: "js_error + (string \<times> string) list"
  report_time :: int

definition unwrap :: "DiagnosticCheck settled \<Rightarrow> DiagnosticCheck" where
  "unwrap r =
     (case r of
        Fulfilled v \<Rightarrow> v
      | Rejected reason \<Rightarrow>
          \<lparr>checkType = ''unknown'', status = ERROR,
           details = [],
           errorMsg = Some (case reason of None \<Rightarrow> ''Promise rejected'' | Some m \<Rightarrow> m),
           durationMs = 0\<rparr>)"

definition attemptRepair :: "DiagnosticCheck \<Rightarrow> string option" where
  "attemptRepair check =
     (if checkType check = ''smtp_send'' then Some ''smtp-transporter-reinitialised''
      else if checkType check = ''imap_login'' then Some ''imap-connection-pool-reset''
      else if checkType check = ''ssl_cert'' then Some ''ssl-alert-logged''
      else if checkType check = ''roundcube_health''
        then Some ''roundcube-container-auto-restart-pending''
      else None)"

text \<open>The auto-repair loop over the checks; \<^verbatim>\<open>if (repairResult)\<close> drops \<^verbatim>\<open>null\<close> and
  the empty string.\<close>

fun repairAll :: "DiagnosticCheck list \<Rightarrow> string list \<Rightarrow> string list" where
  "repairAll [] repairs = repairs"
| "repairAll (check # rest) repairs =
     (if status check = ERROR then
        (case attemptRepair check of
           None \<Rightarrow> repairAll rest repairs
         | Some repairResult \<Rightarrow>
             (if repairResult = [] then repairAll rest repairs
              else repairAll rest (repairs @ [repairResult])))
      else repairAll rest repairs)"

definition overallOf :: "DiagnosticCheck list \<Rightarrow> check_status" where
  "overallOf cs =
     (if list_ex (\<lambda>c. status c = ERROR) cs then ERROR
      else if list_ex (\<lambda>c. status c = WARNING) cs then WARNING
      else OK)"

text \<open>\<open>persistCheck\<close> catches a failing \<^verbatim>\<open>INSERT\<close>: the row is then missing.\<close>

definition persistCheck :: "js_error option \<Rightarrow> DiagnosticCheck \<Rightarrow> system \<Rightarrow> system" where
  "persistCheck outcome check s =
     (case outcome of
        None \<Rightarrow> s\<lparr>mail_diagnostics := mail_diagnostics s @ [check]\<rparr>
      | Some err \<Rightarrow> s)"

fun persistAll :: "(nat \<Rightarrow> js_error option) \<Rightarrow> nat \<Rightarrow> DiagnosticCheck list \<Rightarrow> system \<Rightarrow> system" where
  "persistAll ins i [] s = s"
| "persistAll ins i (check # rest) s = persistAll ins (Suc i) rest (persistCheck (ins i) check s)"

text \<open>
  The rows that \<open>persistAll\<close> appends to \<^verbatim>\<open>mail_diagnostics\<close>, and the rows that one
  diagnostics run appends: one per check whose \<^verbatim>\<open>INSERT\<close> succeeds, in order.
\<close>

fun persisted :: "(nat \<Rightarrow> js_error option) \<Rightarrow> nat \<Rightarrow> DiagnosticCheck list \<Rightarrow> DiagnosticCheck list" where
  "persisted ins i [] = []"
| "persisted ins i (check # rest) =
     (case ins i of None \<Rightarrow> [check] | Some err \<Rightarrow> []) @ persisted ins (Suc i) rest"

text \<open>
  \<open>logBeforeAfterReport\<close> awaits the \<^verbatim>\<open>SELECT\<close> outside any \<^verbatim>\<open>try\<close>; what follows
  only builds the diff lines and logs them.
\<close>

definition beforeOf :: "(string \<times> string) list \<Rightarrow> string \<Rightarrow> string" where
  "beforeOf prev ct = (case map_of (rev prev) ct of None \<Rightarrow> ''unknown'' | Some st \<Rightarrow> st)"

definition statusName :: "check_status \<Rightarrow> string" where
  "statusName st = (case st of OK \<Rightarrow> ''ok'' | WARNING \<Rightarrow> ''warning'' | ERROR \<Rightarrow> ''error'')"

definition logBeforeAfterReport ::
  "js_error + (string \<times> string) list \<Rightarrow> DiagnosticsReport \<Rightarrow> js_error + string list" where
  "logBeforeAfterReport query after =
     (case query of
        Inl err \<Rightarrow> Inl err
      | Inr prev \<Rightarrow>
          Inr (map (\<lambda>check. checkType check @ '' '' @ beforeOf prev (checkType check)
                               @ '' -> '' @ statusName (status check))
                 (filter (\<lambda>check. beforeOf prev (checkType check) \<noteq> statusName (status check))
                    (checks after))))"

text \<open>The report that a run builds from its four settled promises.\<close>

definition buildReport :: "diag_env \<Rightarrow> DiagnosticsReport" where
  "buildReport d =
     (let cs = [unwrap (smtp d), unwrap (imap d), unwrap (ssl d), unwrap (roundcube d)]
      in \<lparr>timestamp = report_time d, overall = overallOf cs, checks = cs,
          repairsAttempted = repairAll cs []\<rparr>)"

definition rowsOfRun :: "diag_env \<Rightarrow> DiagnosticCheck list" where
  "rowsOfRun d = persisted (insert_check d) 0 (checks (buildReport d))"

definition runFullDiagnostics ::
  "bool \<Rightarrow> diag_env \<Rightarrow> system \<Rightarrow> (js_error + DiagnosticsReport) \<times> system" where
  "runFullDiagnostics beforeAfter d s =
     (let report = buildReport d;
          s' = persistAll (insert_check d) 0 (checks report) s
      in if beforeAfter then
           (case logBeforeAfterReport (select_previous d) report of
              Inl err \<Rightarrow> (Inl err, s')
            | Inr diffLines \<Rightarrow> (Inr report, s'))
         else (Inr report, s'))"

text \<open>
  The four promises as the check functions produce them: every check has its whole body
  inside \<^verbatim>\<open>try\<close>/\<^verbatim>\<open>catch\<close>, so each promise is fulfilled.
\<close>

record probe_env =
  SMTP_HOST :: string
  SMTP_PORT :: int
  SMTP_USER :: "string option"
  SMTP_PASS :: "string option"
  smtp_verify :: "js_error + unit"
  smtp_clock :: "int \<times> int"
  IMAP_HOST :: string
  IMAP_PORT :: int
  IMAP_USER :: "string option"
  IMAP_PASS :: "string option"
  imap_session :: "js_error + nat"
  imap_clock :: "int \<times> int"
  MAIL_HOST :: string
  tls_peer :: "js_error + PeerCertificate"
  ssl_clock :: "int \<times> int \<times> int"
  ROUNDCUBE_INTERNAL_URL :: string
  http_get :: "js_error + int"
  roundcube_clock :: "int \<times> int"

definition healthChecks :: "probe_env \<Rightarrow> DiagnosticCheck list" where
  "healthChecks p =
     [checkSmtp (SMTP_HOST p) (SMTP_PORT p) (SMTP_USER p) (SMTP_PASS p) (smtp_verify p)
        (fst (smtp_clock p)) (snd (smtp_clock p)),
      checkImap (IMAP_HOST p) (IMAP_PORT p) (IMAP_USER p) (IMAP_PASS p) (imap_session p)
        (fst (imap_clock p)) (snd (imap_clock p)),
      checkSslCertificate (MAIL_HOST p) (tls_peer p)
        (fst (ssl_clock p)) (fst (snd (ssl_clock p))) (snd (snd (ssl_clock p))),
      checkRoundcubeHealth (ROUNDCUBE_INTERNAL_URL p) (http_get p)
        (fst (roundcube_clock p)) (snd (roundcube_clock p))]"

definition probed ::
  "probe_env \<Rightarrow> (nat \<Rightarrow> js_error option) \<Rightarrow> js_error + (string \<times> string) list \<Rightarrow> int
   \<Rightarrow> diag_env" where
  "probed p ins sel t =
     \<lparr>smtp = Fulfilled (healthChecks p ! 0), imap = Fulfilled (healthChecks p ! 1),
      ssl = Fulfilled (healthChecks p ! 2), roundcube = Fulfilled (healthChecks p ! 3),
      insert_check = ins, select_previous = sel, report_time = t\<rparr>"

section \<open>The auto-updater: version checks\<close>

text \<open>
  What one update cycle meets outside the process:
  the tag names of the Docker Hub answer (\<open>Inl\<close> when \<^verbatim>\<open>fetch\<close>, \<^verbatim>\<open>res.json()\<close> or the
  mapping throws); for a package name, the \<^verbatim>\<open>version\<close> field of the npm registry answer
  (\<open>None\<close> when the field is missing) and the version of the installed
  \<^verbatim>\<open>package.json\<close>; the outcome of \<^verbatim>\<open>emailQueue.pause()\<close>; \<^verbatim>\<open>execSync\<close> on a command;
  the outcome of the \<^verbatim>\<open>INSERT\<close> for the update at each position; the outcome of
  \<^verbatim>\<open>emailQueue.resume()\<close> after the installations and in the \<^verbatim>\<open>catch\<close> block; and the
  environment of each diagnostics run (0 is the run after the installations, k the k-th
  re-run of the repair loop).
\<close>

record updater_env =
  docker_hub :: "js_error + string list"
  npm_registry :: "string \<Rightarrow> js_error + string option"
  node_modules :: "string \<Rightarrow> js_error + string"
  queue_pause :: "js_error option"
  execSync :: "string \<Rightarrow> js_error + string"
  insert_history :: "nat \<Rightarrow> js_error option"
  queue_resume :: "js_error option"
  queue_resume_in_catch :: "js_error option"
  diagnostics :: "nat \<Rightarrow> diag_env"

definition isDigit :: "char \<Rightarrow> bool" where
  "isDigit c = (c \<in> set ''0123456789'')"

text \<open>The regular expression \<^verbatim>\<open>/^\d+\.\d+-apache$/\<close>.\<close>

definition matchesApacheTag :: "string \<Rightarrow> bool" where
  "matchesApacheTag t =
     (takeWhile isDigit t \<noteq> [] \<and>
      (case dropWhile isDigit t of
         [] \<Rightarrow> False
       | c # r \<Rightarrow> c = CHR ''.'' \<and> takeWhile isDigit r \<noteq> [] \<and>
                  dropWhile isDigit r = ''-apache''))"

definition checkRoundcube :: "js_error + string list \<Rightarrow> UpdateCheckResult" where
  "checkRoundcube fetched =
     (case fetched of
        Inr tags \<Rightarrow>
          (let latest = (case find matchesApacheTag tags of None \<Rightarrow> ''unknown'' | Some t \<Rightarrow> t);
               current = ''1.6-apache''
           in \<lparr>component = ''roundcube'', currentVersion = current, latestVersion = latest,
               updateAvailable = (current \<noteq> latest)\<rparr>)
      | Inl err \<Rightarrow>
          \<lparr>component = ''roundcube'', currentVersion = ''unknown'',
           latestVersion = ''unknown'', updateAvailable = False\<rparr>)"

text \<open>\<open>checkNpmPackage cname fetched installed\<close>: \<open>fetched\<close> and \<open>installed\<close> are
  the registry answer and the installed version for \<^verbatim>\<open>packageName\<close>.\<close>

definition checkNpmPackage ::
  "string \<Rightarrow> js_error + string option \<Rightarrow> js_error + string \<Rightarrow> UpdateCheckResult" where
  "checkNpmPackage cname fetched installed =
     (case fetched of
        Inr version \<Rightarrow>
          (let latest = (case version of None \<Rightarrow> ''unknown'' | Some v \<Rightarrow> v);
               current = (case installed of Inr v \<Rightarrow> v | Inl err \<Rightarrow> ''unknown'')
           in \<lparr>component = cname, currentVersion = current, latestVersion = latest,
               updateAvailable = (current \<noteq> ''unknown'' \<and> current \<noteq> latest)\<rparr>)
      | Inl err \<Rightarrow>
          \<lparr>component = cname, currentVersion = ''unknown'',
           latestVersion = ''unknown'', updateAvailable = False\<rparr>)"

definition checkAll :: "updater_env \<Rightarrow> UpdateCheckResult list" where
  "checkAll env =
     [checkRoundcube (docker_hub env),
      checkNpmPackage ''whatsapp-api''
        (npm_registry env ''@whiskeysockets/baileys'') (node_modules env ''@whiskeysockets/baileys''),
      checkNpmPackage ''instagram-api''
        (npm_registry env ''instagram-private-api'') (node_modules env ''instagram-private-api''),
      checkNpmPackage ''nestjs-core''
        (npm_registry env ''@nestjs/core'') (node_modules env ''@nestjs/core'')]"

section \<open>The auto-updater: installing one update\<close>

definition execSafe :: "(string \<Rightarrow> js_error + string) \<Rightarrow> string \<Rightarrow> string" where
  "execSafe exec cmd =
     (case exec cmd of
        Inr out \<Rightarrow> out
      | Inl e \<Rightarrow> ''EXEC ERROR: '' @ message e)"

text \<open>
  The \<^verbatim>\<open>try\<close> block of \<open>installUpdate\<close>: \<open>Inr\<close> the log output when it completes,
  \<open>Inl\<close> the log output so far and the exception when a statement throws. Every
  statement is a call of \<open>execSafe\<close> or a string concatenation.
\<close>

definition installCommands ::
  "(string \<Rightarrow> js_error + string) \<Rightarrow> UpdateCheckResult \<Rightarrow> (string \<times> js_error) + string" where
  "installCommands exec check =
     (if component check = ''roundcube'' then
        (let pulled = execSafe exec (''docker pull roundcube/roundcubemail:'' @ latestVersion check)
         in Inr (pulled @ newline @
              execSafe exec ''docker compose -f /app/email-server/docker-compose.mail.yml up -d roundcube''))
      else
        (let pkgName = (if component check = ''whatsapp-api'' then ''@whiskeysockets/baileys''
                        else if component check = ''instagram-api'' then ''instagram-private-api''
                        else component check)
         in Inr (execSafe exec (''npm install '' @ pkgName @ ''@'' @ latestVersion check
                                 @ '' --save --prefix /app''))))"

definition installUpdate ::
  "(string \<Rightarrow> js_error + string) \<Rightarrow> UpdateCheckResult \<Rightarrow> UpdateResult" where
  "installUpdate exec check =
     (case installCommands exec check of
        Inr logged \<Rightarrow>
          \<lparr>UpdateResult.component = component check, previousVersion = currentVersion check,
           newVersion = latestVersion check, success = True, logOutput = logged\<rparr>
      | Inl (logged, err) \<Rightarrow>
          \<lparr>UpdateResult.component = component check, previousVersion = currentVersion check,
           newVersion = latestVersion check, success = False,
           logOutput = logged @ newline @ ''ERROR: '' @ message err\<rparr>)"

section \<open>The auto-updater: maintenance mode, history, progress\<close>

definition enterMaintenanceMode :: "js_error option \<Rightarrow> system \<Rightarrow> (js_error + unit) \<times> system" where
  "enterMaintenanceMode paused s =
     (let s1 = s\<lparr>maintenanceMode := True\<rparr>
      in case paused of
           Some err \<Rightarrow> (Inl err, s1)
         | None \<Rightarrow> (Inr (), s1\<lparr>queuePaused := True\<rparr>))"

definition exitMaintenanceMode :: "js_error option \<Rightarrow> system \<Rightarrow> (js_error + unit) \<times> system" where
  "exitMaintenanceMode resumed s =
     (case resumed of
        Some err \<Rightarrow> (Inl err, s)
      | None \<Rightarrow> (Inr (), s\<lparr>queuePaused := False, maintenanceMode := False\<rparr>))"

text \<open>The parameters of the \<^verbatim>\<open>INSERT INTO update_history\<close>.\<close>

definition historyRow :: "UpdateResult \<Rightarrow> history_row" where
  "historyRow result =
     \<lparr>h_component = UpdateResult.component result,
      h_previous_version = previousVersion result,
      h_new_version = newVersion result,
      h_status = (if success result then ''success'' else ''failed''),
      h_log_output = logOutput result\<rparr>"

text \<open>\<open>saveUpdateHistory\<close> catches a failing \<^verbatim>\<open>INSERT\<close>: the row is then missing.\<close>

definition saveUpdateHistory :: "js_error option \<Rightarrow> UpdateResult \<Rightarrow> system \<Rightarrow> system" where
  "saveUpdateHistory outcome result s =
     (case outcome of
        None \<Rightarrow> s\<lparr>update_history := update_history s @ [historyRow result]\<rparr>
      | Some err \<Rightarrow> s)"

definition setProgress ::
  "updater_status \<Rightarrow> string \<Rightarrow> int \<Rightarrow> string option \<Rightarrow> system \<Rightarrow> system" where
  "setProgress st msg prog cname s =
     s\<lparr>updateProgress := \<lparr>Progress.status = st, Progress.message = msg, progress = prog,
                            Progress.component = cname\<rparr>\<rparr>"

definition getProgress :: "system \<Rightarrow> Progress" where
  "getProgress s = updateProgress s"

section \<open>The auto-updater: the update cycle\<close>

text \<open>\<^verbatim>\<open>xs.join(', ')\<close>.\<close>

fun joinComma :: "string list \<Rightarrow> string" where
  "joinComma [] = []"
| "joinComma [x] = x"
| "joinComma (x # y # rest) = x @ '', '' @ joinComma (y # rest)"

definition digit :: "nat \<Rightarrow> char" where
  "digit d = ''0123456789'' ! d"

text \<open>A natural number in decimal, as a template literal prints it.\<close>

fun showNat :: "nat \<Rightarrow> string" where
  "showNat n = (if n < 10 then [digit n] else showNat (n div 10) @ [digit (n mod 10)])"

text \<open>
  The \<^verbatim>\<open>for (const check of pending)\<close> loop: \<open>i\<close> counts the updates done so far,
  \<open>progressStep\<close> and \<open>acc\<close> are the loop's \<^verbatim>\<open>progressStep\<close> and \<^verbatim>\<open>results\<close>.
\<close>

fun installAll ::
  "updater_env \<Rightarrow> nat \<Rightarrow> int \<Rightarrow> UpdateCheckResult list \<Rightarrow> UpdateResult list \<Rightarrow> system
   \<Rightarrow> UpdateResult list \<times> system" where
  "installAll env i progressStep [] acc s = (acc, s)"
| "installAll env i progressStep (check # rest) acc s =
     (let s1 = setProgress Installing (''Installing '' @ component check @ hellip) progressStep
                 (Some (component check)) s;
          result = installUpdate (execSync env) check;
          s2 = saveUpdateHistory (insert_history env i) result s1
      in installAll env (Suc i) (min (progressStep + 20) 80) rest (acc @ [result]) s2)"

text \<open>
  The \<^verbatim>\<open>while (diagnosticsReport.overall === 'error' && repairAttempts < 3)\<close> loop. It
  returns the last report and the number of re-runs.
\<close>

function repairLoop ::
  "updater_env \<Rightarrow> DiagnosticsReport \<Rightarrow> nat \<Rightarrow> system
   \<Rightarrow> (js_error + DiagnosticsReport \<times> nat) \<times> system" where
  "repairLoop env diagnosticsReport repairAttempts s =
     (if overall diagnosticsReport = ERROR \<and> repairAttempts < 3 then
        (let s1 = setProgress Repairing
                    (''Auto-repair attempt '' @ showNat (Suc repairAttempts) @ ''/3'' @ hellip)
                    (85 + int (Suc repairAttempts) * 4) None s
         in case runFullDiagnostics False (diagnostics env (Suc repairAttempts)) s1 of
              (Inl err, s2) \<Rightarrow> (Inl err, s2)
            | (Inr report, s2) \<Rightarrow> repairLoop env report (Suc repairAttempts) s2)
      else (Inr (diagnosticsReport, repairAttempts), s))"
  by pat_completeness auto
termination
  by (relation "measure (\<lambda>(env, diagnosticsReport, repairAttempts, s). 3 - repairAttempts)") auto

text \<open>
  Phase 4 of the \<^verbatim>\<open>try\<close> block once maintenance mode is left: the diagnostics run
  with the before/after report, the repair loop, the final progress and the returned
  value. \<open>installed\<close> is the \<^verbatim>\<open>results\<close> array. The 5 second pause of the loop is not
  modelled.
\<close>

definition diagnoseAndRepair ::
  "updater_env \<Rightarrow> UpdateResult list \<Rightarrow> system
   \<Rightarrow> ((js_error \<times> UpdateResult list) + CycleResult) \<times> system" where
  "diagnoseAndRepair env installed s =
     (case runFullDiagnostics True (diagnostics env 0) s of
        (Inl err, s1) \<Rightarrow> (Inl (err, installed), s1)
      | (Inr report, s1) \<Rightarrow>
          (case repairLoop env report 0 s1 of
             (Inl err, s2) \<Rightarrow> (Inl (err, installed), s2)
           | (Inr (lastReport, attempts), s2) \<Rightarrow>
               (let finalStatus = overall lastReport
                in (Inr \<lparr>results = installed, diagnosticsStatus = statusName finalStatus\<rparr>,
                    setProgress
                      (if finalStatus = OK then Done else Failed)
                      (if finalStatus = OK
                       then ''All updates installed and system is stable.''
                       else ''Updates installed but some checks still failing ''
                            @ ndash @ '' manual review needed.'')
                      100 None s2))))"

text \<open>
  The \<^verbatim>\<open>try\<close> block of \<open>checkAndInstallAll\<close>: \<open>Inr\<close> the value it returns, \<open>Inl\<close> the
  exception with the \<^verbatim>\<open>results\<close> collected when it was thrown.
\<close>

definition updateCycle ::
  "updater_env \<Rightarrow> system \<Rightarrow> ((js_error \<times> UpdateResult list) + CycleResult) \<times> system" where
  "updateCycle env s =
     (let s1 = setProgress Checking (''Checking for available updates'' @ hellip) 5 None s;
          pending = filter updateAvailable (checkAll env)
      in if length pending = 0 then
           (Inr \<lparr>results = [], diagnosticsStatus = ''ok''\<rparr>,
            setProgress Done ''All components are up to date.'' 100 None s1)
         else
           (let s2 = setProgress Installing
                       (''Updates available for: '' @ joinComma (map component pending)) 10 None s1
            in case enterMaintenanceMode (queue_pause env) s2 of
                 (Inl err, s3) \<Rightarrow> (Inl (err, []), s3)
               | (Inr u, s3) \<Rightarrow>
                   (case installAll env 0 15 pending [] s3 of
                      (installed, s4) \<Rightarrow>
                        (let s5 = setProgress Repairing
                                    (''Running post-update diagnostics'' @ hellip) 85 None s4
                         in case exitMaintenanceMode (queue_resume env) s5 of
                              (Inl err, s6) \<Rightarrow> (Inl (err, installed), s6)
                            | (Inr u, s6) \<Rightarrow> diagnoseAndRepair env installed s6))))"

text \<open>
  \<open>checkAndInstallAll\<close>: the busy guard, the \<^verbatim>\<open>try\<close> block, the \<^verbatim>\<open>catch\<close> block and
  the \<^verbatim>\<open>finally\<close> block. \<open>Inl\<close> is an exception that leaves the function.
\<close>

definition checkAndInstallAll ::
  "updater_env \<Rightarrow> system \<Rightarrow> (js_error + CycleResult) \<times> system" where
  "checkAndInstallAll env s =
     (if isUpdating s then
        (Inr \<lparr>results = [], diagnosticsStatus = ''update-already-in-progress''\<rparr>, s)
      else
        (case updateCycle env (s\<lparr>isUpdating := True\<rparr>) of
           (Inr returned, s1) \<Rightarrow> (Inr returned, s1\<lparr>isUpdating := False\<rparr>)
         | (Inl (err, collected), s1) \<Rightarrow>
             (let s2 = setProgress Failed (''Update failed: '' @ message err) 100 None s1
              in case exitMaintenanceMode (queue_resume_in_catch env) s2 of
                   (Inl thrown, s3) \<Rightarrow> (Inl thrown, s3\<lparr>isUpdating := False\<rparr>)
                 | (Inr u, s3) \<Rightarrow>
                     (Inr \<lparr>results = collected, diagnosticsStatus = ''error''\<rparr>,
                      s3\<lparr>isUpdating := False\<rparr>))))"

definition runScheduledUpdate :: "updater_env \<Rightarrow> system \<Rightarrow> (js_error + unit) \<times> system" where
  "runScheduledUpdate env s =
     (case checkAndInstallAll env s of
        (Inl err, s') \<Rightarrow> (Inl err, s')
      | (Inr returned, s') \<Rightarrow> (Inr (), s'))"

text \<open>
  The controller's \<^verbatim>\<open>POST /emails/updater/run\<close>: it calls \<open>checkAndInstallAll\<close> without
  awaiting the promise and without reading its value, and answers at once. The state
  given back is the one left when that promise has settled.
\<close>

definition runUpdater :: "updater_env \<Rightarrow> system \<Rightarrow> UpdaterResponse \<times> system" where
  "runUpdater env s =
     (\<lparr>UpdaterResponse.message = ''Update check started'', UpdaterResponse.status = ''accepted''\<rparr>,
      snd (checkAndInstallAll env s))"

section \<open>Concrete systems and environments\<close>

definition idleSystem :: system where
  "idleSystem =
     \<lparr>isUpdating = False,
      updateProgress = \<lparr>Progress.status = Idle, Progress.message = [], progress = 0,
                        Progress.component = None\<rparr>,
      maintenanceMode = False, queuePaused = False,
      mail_diagnostics = [], update_history = []\<rparr>"

text \<open>A system in the middle of a cycle: busy, installing, in maintenance mode.\<close>

definition busySystem :: system where
  "busySystem =
     \<lparr>isUpdating = True,
      updateProgress = \<lparr>Progress.status = Installing,
                        Progress.message = ''Installing roundcube'' @ hellip, progress = 15,
                        Progress.component = Some ''roundcube''\<rparr>,
      maintenanceMode = True, queuePaused = True,
      mail_diagnostics = [], update_history = []\<rparr>"

text \<open>Probes that all succeed: the certificate expires in 90 days, Roundcube answers 200.\<close>

definition healthyProbes :: probe_env where
  "healthyProbes =
     \<lparr>SMTP_HOST = ''mail.workandstudyabroad.com.tr'', SMTP_PORT = 587,
      SMTP_USER = Some ''mailer'', SMTP_PASS = Some ''secret'',
      smtp_verify = Inr (), smtp_clock = (0, 120),
      IMAP_HOST = ''mail.workandstudyabroad.com.tr'', IMAP_PORT = 993,
      IMAP_USER = Some ''mailer'', IMAP_PASS = Some ''secret'',
      imap_session = Inr 5, imap_clock = (0, 200),
      MAIL_HOST = ''mail.workandstudyabroad.com.tr'',
      tls_peer = Inr \<lparr>valid_to = Some (90 * 86400000),
                       subjectCN = Some ''mail.workandstudyabroad.com.tr''\<rparr>,
      ssl_clock = (0, 60, 61),
      ROUNDCUBE_INTERNAL_URL = ''http://127.0.0.1:8080'',
      http_get = Inr 200, roundcube_clock = (0, 30)\<rparr>"

text \<open>The same without SMTP credentials, and the same with Roundcube answering 503.\<close>

definition unconfiguredProbes :: probe_env where
  "unconfiguredProbes = healthyProbes\<lparr>SMTP_USER := None\<rparr>"

definition brokenProbes :: probe_env where
  "brokenProbes = healthyProbes\<lparr>http_get := Inr 503\<rparr>"

definition diagEnv :: "probe_env \<Rightarrow> diag_env" where
  "diagEnv p = probed p (\<lambda>i. None) (Inr []) 1000"

text \<open>
  An update cycle with one pending update: Docker Hub lists \<^verbatim>\<open>1.7-apache\<close>, the npm
  packages are at their latest version, every command, query and queue call succeeds,
  and every diagnostics run meets \<open>d\<close>.
\<close>

definition cycleEnv :: "diag_env \<Rightarrow> updater_env" where
  "cycleEnv d =
     \<lparr>docker_hub = Inr [''latest'', ''1.7-apache''],
      npm_registry = (\<lambda>pkg. Inr (Some ''1.0.0'')),
      node_modules = (\<lambda>pkg. Inr ''1.0.0''),
      queue_pause = None,
      execSync = (\<lambda>cmd. Inr ''done''),
      insert_history = (\<lambda>i. None),
      queue_resume = None,
      queue_resume_in_catch = None,
      diagnostics = (\<lambda>k. d)\<rparr>"

text \<open>
  The same cycle on a system that recovers: Roundcube answers 503 in the run after the
  installations and in the first re-run, and 200 from the second re-run on.
\<close>

definition recoveringEnv :: updater_env where
  "recoveringEnv =
     (cycleEnv (diagEnv healthyProbes))
       \<lparr>diagnostics := (\<lambda>k. if k < 2 then diagEnv brokenProbes else diagEnv healthyProbes)\<rparr>"

text \<open>The same cycle when the queue's connection is lost after the installations:
  \<^verbatim>\<open>emailQueue.resume()\<close> rejects, after the loop and again in the \<^verbatim>\<open>catch\<close> block.\<close>

definition stuckEnv :: updater_env where
  "stuckEnv =
     (cycleEnv (diagEnv healthyProbes))
       \<lparr>queue_resume := Some (JsError ''Connection is closed.''),
        queue_resume_in_catch := Some (JsError ''Connection is closed.'')\<rparr>"

text \<open>A diagnostics run on healthy probes whose \<^verbatim>\<open>SELECT\<close> of previous results fails.\<close>

definition dbDownDiag :: diag_env where
  "dbDownDiag = probed healthyProbes (\<lambda>i. None) (Inl (JsError ''Connection terminated'')) 1000"

section \<open>Facts about the health checks\<close>

lemma healthChecks_nth:
  "healthChecks p ! 0 = checkSmtp (SMTP_HOST p) (SMTP_PORT p) (SMTP_USER p) (SMTP_PASS p)
        (smtp_verify p) (fst (smtp_clock p)) (snd (smtp_clock p))"
  "healthChecks p ! Suc 0 = checkImap (IMAP_HOST p) (IMAP_PORT p) (IMAP_USER p) (IMAP_PASS p)
        (imap_session p) (fst (imap_clock p)) (snd (imap_clock p))"
  "healthChecks p ! 2 = checkSslCertificate (MAIL_HOST p) (tls_peer p)
        (fst (ssl_clock p)) (fst (snd (ssl_clock p))) (snd (snd (ssl_clock p)))"
  "healthChecks p ! 3 = checkRoundcubeHealth (ROUNDCUBE_INTERNAL_URL p) (http_get p)
        (fst (roundcube_clock p)) (snd (roundcube_clock p))"
  by (simp_all add: healthChecks_def)

lemma checkType_checkSmtp: "checkType (checkSmtp h po u pa v a b) = ''smtp_send''"
  by (simp add: checkSmtp_def split: sum.splits)

lemma checkType_checkImap: "checkType (checkImap h po u pa v a b) = ''imap_login''"
  by (simp add: checkImap_def split: sum.splits)

lemma checkType_checkSslCertificate:
  "checkType (checkSslCertificate h pe a n b) = ''ssl_cert''"
  by (simp add: checkSslCertificate_def split: sum.splits option.splits)

lemma checkType_checkRoundcubeHealth:
  "checkType (checkRoundcubeHealth u r a b) = ''roundcube_health''"
  by (simp add: checkRoundcubeHealth_def split: sum.splits)

text \<open>
  C4, as the code has it. The certificate check uses strict comparisons: the status is ok
  above 14 days, warning from 8 to 14 days, and error at 7 days or fewer; it is error as
  well when the TLS connection fails or the expiry date does not parse.
\<close>

theorem ssl_status_thresholds:
  "(status (checkSslCertificate host (Inr \<lparr>valid_to = Some expiry, subjectCN = cn\<rparr>) start now fin) = OK
      \<longleftrightarrow> 14 < daysUntilExpiry expiry now) \<and>
   (status (checkSslCertificate host (Inr \<lparr>valid_to = Some expiry, subjectCN = cn\<rparr>) start now fin) = WARNING
      \<longleftrightarrow> 8 \<le> daysUntilExpiry expiry now \<and> daysUntilExpiry expiry now \<le> 14) \<and>
   (status (checkSslCertificate host (Inr \<lparr>valid_to = Some expiry, subjectCN = cn\<rparr>) start now fin) = ERROR
      \<longleftrightarrow> daysUntilExpiry expiry now \<le> 7) \<and>
   status (checkSslCertificate host (Inl err) start now fin) = ERROR \<and>
   status (checkSslCertificate host (Inr \<lparr>valid_to = None, subjectCN = cn\<rparr>) start now fin) = ERROR"
  by (simp add: checkSslCertificate_def)

text \<open>A certificate that expires in ten days gives a warning.\<close>

theorem ssl_status_thresholds_witness:
  "status (checkSslCertificate ''mail.workandstudyabroad.com.tr''
             (Inr \<lparr>valid_to = Some (10 * 86400000), subjectCN = None\<rparr>) 0 0 40) = WARNING"
  using ssl_status_thresholds [of "''mail.workandstudyabroad.com.tr''" "10 * 86400000" None 0 0 40]
  by (simp add: daysUntilExpiry_def)

text \<open>C4 as stated fails at exactly seven days: the claim says warning, the check says error.\<close>

theorem ssl_seven_days_is_error:
  "daysUntilExpiry (7 * 86400000) 0 = 7 \<and>
   status (checkSslCertificate ''mail.workandstudyabroad.com.tr''
             (Inr \<lparr>valid_to = Some (7 * 86400000), subjectCN = None\<rparr>) 0 0 40) = ERROR"
  by (simp add: checkSslCertificate_def daysUntilExpiry_def)

lemma smtp_errorMsg:
  "(errorMsg (checkSmtp host port user pass verify start fin) \<noteq> None \<longleftrightarrow>
      status (checkSmtp host port user pass verify start fin) = ERROR \<or>
      status (checkSmtp host port user pass verify start fin) = WARNING) \<and>
   (status (checkSmtp host port user pass verify start fin) = WARNING \<longleftrightarrow>
      falsy user \<or> falsy pass) \<and>
   (status (checkSmtp host port user pass verify start fin) = WARNING \<longrightarrow>
      errorMsg (checkSmtp host port user pass verify start fin)
        = Some ''SMTP credentials not configured'') \<and>
   (status (checkSmtp host port user pass verify start fin) = ERROR \<longrightarrow>
      (\<exists>err. verify = Inl err \<and>
         errorMsg (checkSmtp host port user pass verify start fin) = Some (message err)))"
  by (simp add: checkSmtp_def split: sum.splits)

lemma imap_errorMsg:
  "(errorMsg (checkImap host port user pass session start fin) \<noteq> None \<longleftrightarrow>
      status (checkImap host port user pass session start fin) = ERROR \<or>
      status (checkImap host port user pass session start fin) = WARNING) \<and>
   (status (checkImap host port user pass session start fin) = WARNING \<longleftrightarrow>
      falsy user \<or> falsy pass) \<and>
   (status (checkImap host port user pass session start fin) = WARNING \<longrightarrow>
      errorMsg (checkImap host port user pass session start fin)
        = Some ''IMAP credentials not configured'') \<and>
   (status (checkImap host port user pass session start fin) = ERROR \<longrightarrow>
      (\<exists>err. session = Inl err \<and>
         errorMsg (checkImap host port user pass session start fin) = Some (message err)))"
  by (simp add: checkImap_def split: sum.splits)

lemma ssl_errorMsg:
  "(errorMsg (checkSslCertificate host peer start now fin) \<noteq> None \<longleftrightarrow>
      status (checkSslCertificate host peer start now fin) = ERROR \<and>
      \<not> (\<exists>cert expiry. peer = Inr cert \<and> valid_to cert = Some expiry \<and>
            daysUntilExpiry expiry now \<le> 7)) \<and>
   (peer = Inl err \<longrightarrow>
      errorMsg (checkSslCertificate host peer start now fin) = Some (message err)) \<and>
   ((\<exists>cert. peer = Inr cert \<and> valid_to cert = None) \<longrightarrow>
      errorMsg (checkSslCertificate host peer start now fin) = Some ''Invalid time value'')"
  by (auto simp add: checkSslCertificate_def split: sum.splits option.splits)

lemma roundcube_errorMsg:
  "(errorMsg (checkRoundcubeHealth url response start fin) \<noteq> None \<longleftrightarrow>
      status (checkRoundcubeHealth url response start fin) = ERROR \<and>
      \<not> (\<exists>statusCode. response = Inr statusCode \<and> 500 \<le> statusCode)) \<and>
   (response = Inl err \<longrightarrow>
      errorMsg (checkRoundcubeHealth url response start fin) = Some (message err))"
  by (auto simp add: checkRoundcubeHealth_def split: sum.splits)

text \<open>
  C5, as the code has it. For every result of the four health checks the \<open>errorMsg\<close> is
  present if and only if the status is error, with exactly two exceptions. The warning
  of \<open>checkSmtp\<close> and of \<open>checkImap\<close>, which is returned exactly when a credential is not
  configured, carries the message that the credentials are not configured. The error
  that \<open>checkSslCertificate\<close> returns for a parsed expiry date at most 7 days away, and
  the error that \<open>checkRoundcubeHealth\<close> returns for a status code of 500 or more, carry
  no \<open>errorMsg\<close>. Every error result built in a \<^verbatim>\<open>catch\<close> block carries the message of
  the exception.
\<close>

theorem errorMsg_presence:
  "((errorMsg (checkSmtp host port user pass verify start fin) \<noteq> None \<longleftrightarrow>
       status (checkSmtp host port user pass verify start fin) = ERROR \<or>
       status (checkSmtp host port user pass verify start fin) = WARNING) \<and>
    (status (checkSmtp host port user pass verify start fin) = WARNING \<longleftrightarrow>
       falsy user \<or> falsy pass) \<and>
    (status (checkSmtp host port user pass verify start fin) = WARNING \<longrightarrow>
       errorMsg (checkSmtp host port user pass verify start fin)
         = Some ''SMTP credentials not configured'') \<and>
    (status (checkSmtp host port user pass verify start fin) = ERROR \<longrightarrow>
       (\<exists>err. verify = Inl err \<and>
          errorMsg (checkSmtp host port user pass verify start fin) = Some (message err)))) \<and>
   ((errorMsg (checkImap ihost iport iuser ipass session istart ifin) \<noteq> None \<longleftrightarrow>
       status (checkImap ihost iport iuser ipass session istart ifin) = ERROR \<or>
       status (checkImap ihost iport iuser ipass session istart ifin) = WARNING) \<and>
    (status (checkImap ihost iport iuser ipass session istart ifin) = WARNING \<longleftrightarrow>
       falsy iuser \<or> falsy ipass) \<and>
    (status (checkImap ihost iport iuser ipass session istart ifin) = WARNING \<longrightarrow>
       errorMsg (checkImap ihost iport iuser ipass session istart ifin)
         = Some ''IMAP credentials not configured'') \<and>
    (status (checkImap ihost iport iuser ipass session istart ifin) = ERROR \<longrightarrow>
       (\<exists>err. session = Inl err \<and>
          errorMsg (checkImap ihost iport iuser ipass session istart ifin) = Some (message err)))) \<and>
   ((errorMsg (checkSslCertificate shost peer sstart now sfin) \<noteq> None \<longleftrightarrow>
       status (checkSslCertificate shost peer sstart now sfin) = ERROR \<and>
       \<not> (\<exists>cert expiry. peer = Inr cert \<and> valid_to cert = Some expiry \<and>
             daysUntilExpiry expiry now \<le> 7)) \<and>
    (peer = Inl serr \<longrightarrow>
       errorMsg (checkSslCertificate shost peer sstart now sfin) = Some (message serr)) \<and>
    ((\<exists>cert. peer = Inr cert \<and> valid_to cert = None) \<longrightarrow>
       errorMsg (checkSslCertificate shost peer sstart now sfin) = Some ''Invalid time value'')) \<and>
   ((errorMsg (checkRoundcubeHealth url response rstart rfin) \<noteq> None \<longleftrightarrow>
       status (checkRoundcubeHealth url response rstart rfin) = ERROR \<and>
       \<not> (\<exists>statusCode. response = Inr statusCode \<and> 500 \<le> statusCode)) \<and>
    (response = Inl rerr \<longrightarrow>
       errorMsg (checkRoundcubeHealth url response rstart rfin) = Some (message rerr)))"
  by (rule conjI [OF smtp_errorMsg conjI [OF imap_errorMsg conjI [OF ssl_errorMsg roundcube_errorMsg]]])

text \<open>
  Without an SMTP user the check is a warning that carries an \<open>errorMsg\<close>; when the TLS
  connection times out the certificate check is an error that carries the message.
\<close>

theorem errorMsg_presence_witness:
  "falsy None \<and>
   status (checkSmtp ''mail.workandstudyabroad.com.tr'' 587 None (Some ''secret'') (Inr ()) 0 120)
     = WARNING \<and>
   errorMsg (checkSmtp ''mail.workandstudyabroad.com.tr'' 587 None (Some ''secret'') (Inr ()) 0 120)
     = Some ''SMTP credentials not configured'' \<and>
   status (checkSslCertificate ''mail.workandstudyabroad.com.tr''
             (Inl (JsError ''TLS connection timeout'')) 0 0 8000) = ERROR \<and>
   errorMsg (checkSslCertificate ''mail.workandstudyabroad.com.tr''
             (Inl (JsError ''TLS connection timeout'')) 0 0 8000) = Some ''TLS connection timeout''"
proof -
  have f: "falsy None" by (simp add: falsy_def)
  note t = errorMsg_presence [of "''mail.workandstudyabroad.com.tr''" 587 None "Some ''secret''"
      "Inr ()" 0 120 _ _ _ _ _ _ _ "''mail.workandstudyabroad.com.tr''"
      "Inl (JsError ''TLS connection timeout'')" 0 0 8000 "JsError ''TLS connection timeout''"]
  from t f have w: "status (checkSmtp ''mail.workandstudyabroad.com.tr'' 587 None (Some ''secret'')
                      (Inr ()) 0 120) = WARNING"
    by blast
  from t w have m: "errorMsg (checkSmtp ''mail.workandstudyabroad.com.tr'' 587 None (Some ''secret'')
                      (Inr ()) 0 120) = Some ''SMTP credentials not configured''"
    by blast
  from t have e: "errorMsg (checkSslCertificate ''mail.workandstudyabroad.com.tr''
             (Inl (JsError ''TLS connection timeout'')) 0 0 8000) = Some ''TLS connection timeout''"
    by simp
  from t e have st: "status (checkSslCertificate ''mail.workandstudyabroad.com.tr''
             (Inl (JsError ''TLS connection timeout'')) 0 0 8000) = ERROR"
    by simp
  from f w m st e show ?thesis by simp
qed

text \<open>
  C5 as stated fails in both directions: the SMTP check without credentials is a warning
  that carries an \<open>errorMsg\<close>, and the Roundcube check on a 503 answer is an error that
  carries none.
\<close>

theorem errorMsg_not_iff_error:
  "status (healthChecks unconfiguredProbes ! 0) = WARNING \<and>
   errorMsg (healthChecks unconfiguredProbes ! 0) = Some ''SMTP credentials not configured'' \<and>
   status (healthChecks brokenProbes ! 3) = ERROR \<and>
   errorMsg (healthChecks brokenProbes ! 3) = None"
  by (simp add: healthChecks_nth unconfiguredProbes_def brokenProbes_def healthyProbes_def
        checkSmtp_def checkRoundcubeHealth_def falsy_def)

section \<open>Facts about the diagnostics engine\<close>

lemma checks_buildReport:
  "checks (buildReport d) = [unwrap (smtp d), unwrap (imap d), unwrap (ssl d), unwrap (roundcube d)]"
  by (simp add: buildReport_def Let_def)

lemma runFullDiagnostics_report:
  "fst (runFullDiagnostics beforeAfter d s) = Inr report \<Longrightarrow> report = buildReport d"
  by (simp add: runFullDiagnostics_def Let_def split: if_splits sum.splits)

lemma runFullDiagnostics_False_eq:
  "runFullDiagnostics False d s =
     (Inr (buildReport d), persistAll (insert_check d) 0 (checks (buildReport d)) s)"
  by (simp add: runFullDiagnostics_def Let_def)

lemma runFullDiagnostics_True_eq:
  "select_previous d = Inr prev \<Longrightarrow>
   runFullDiagnostics True d s =
     (Inr (buildReport d), persistAll (insert_check d) 0 (checks (buildReport d)) s)"
  by (simp add: runFullDiagnostics_def Let_def logBeforeAfterReport_def)

lemma runFullDiagnostics_True_throws:
  "select_previous d = Inl err \<Longrightarrow>
   runFullDiagnostics True d s =
     (Inl err, persistAll (insert_check d) 0 (checks (buildReport d)) s)"
  by (simp add: runFullDiagnostics_def Let_def logBeforeAfterReport_def)

lemma unwrap_Fulfilled: "unwrap (Fulfilled check) = check"
  by (simp add: unwrap_def)

lemma unwrap_Rejected:
  "status (unwrap (Rejected reason)) = ERROR" "errorMsg (unwrap (Rejected reason)) \<noteq> None"
  by (simp_all add: unwrap_def)

lemma checkTypes_probed:
  "map checkType (checks (buildReport (probed p ins sel t))) =
     [''smtp_send'', ''imap_login'', ''ssl_cert'', ''roundcube_health'']"
  by (simp add: checks_buildReport probed_def unwrap_Fulfilled healthChecks_nth
        checkType_checkSmtp checkType_checkImap checkType_checkSslCertificate
        checkType_checkRoundcubeHealth)

text \<open>
  C8. A run without the before/after report always returns a report; every report that
  a run returns holds exactly four results, the unwrapped promises of the SMTP, IMAP,
  certificate and Roundcube checks in that order; a rejected promise is unwrapped into an
  error result with an \<open>errorMsg\<close>, a fulfilled one into its value; and on the promises of
  the four check functions the check types are the four registered ones.
\<close>

theorem one_result_per_check:
  "(\<exists>report. fst (runFullDiagnostics False d s) = Inr report) \<and>
   (\<forall>report. fst (runFullDiagnostics beforeAfter d s) = Inr report \<longrightarrow>
      checks report = [unwrap (smtp d), unwrap (imap d), unwrap (ssl d), unwrap (roundcube d)] \<and>
      length (checks report) = 4) \<and>
   status (unwrap (Rejected reason)) = ERROR \<and>
   errorMsg (unwrap (Rejected reason)) \<noteq> None \<and>
   unwrap (Fulfilled check) = check \<and>
   map checkType (checks (buildReport (probed p ins sel t))) =
     [''smtp_send'', ''imap_login'', ''ssl_cert'', ''roundcube_health'']"
proof -
  have a: "\<exists>report. fst (runFullDiagnostics False d s) = Inr report"
    by (simp add: runFullDiagnostics_False_eq)
  have b: "\<forall>report. fst (runFullDiagnostics beforeAfter d s) = Inr report \<longrightarrow>
      checks report = [unwrap (smtp d), unwrap (imap d), unwrap (ssl d), unwrap (roundcube d)] \<and>
      length (checks report) = 4"
    using runFullDiagnostics_report [of beforeAfter d s] by (auto simp add: checks_buildReport)
  show ?thesis
    using a b unwrap_Rejected [of reason] unwrap_Fulfilled [of check]
      checkTypes_probed [of p ins sel t]
    by blast
qed

text \<open>A run with the before/after report on a system whose Roundcube check fails.\<close>

theorem one_result_per_check_witness:
  "fst (runFullDiagnostics True (diagEnv brokenProbes) idleSystem)
     = Inr (buildReport (diagEnv brokenProbes)) \<and>
   length (checks (buildReport (diagEnv brokenProbes))) = 4"
proof -
  have r: "fst (runFullDiagnostics True (diagEnv brokenProbes) idleSystem)
             = Inr (buildReport (diagEnv brokenProbes))"
    by (simp add: runFullDiagnostics_True_eq [of _ "[]"] diagEnv_def probed_def)
  from one_result_per_check [of "diagEnv brokenProbes" idleSystem True] r
  show ?thesis by simp
qed

section \<open>Facts about the version checks and the installation\<close>

text \<open>
  C1 fails on the code. When the registry answer has no \<^verbatim>\<open>version\<close> field,
  \<open>checkNpmPackage\<close> reports the latest version \<^verbatim>\<open>unknown\<close> and an available update;
  when no Docker Hub tag has the form \<^verbatim>\<open>digits.digits-apache\<close>, \<open>checkRoundcube\<close> does
  the same.
\<close>

theorem unknown_latest_update_available:
  "checkNpmPackage ''nestjs-core'' (Inr None) (Inr ''10.0.0'') =
     \<lparr>component = ''nestjs-core'', currentVersion = ''10.0.0'', latestVersion = ''unknown'',
      updateAvailable = True\<rparr> \<and>
   checkRoundcube (Inr [''latest'', ''1.6.9-apache'']) =
     \<lparr>component = ''roundcube'', currentVersion = ''1.6-apache'', latestVersion = ''unknown'',
      updateAvailable = True\<rparr>"
  by (simp add: checkNpmPackage_def checkRoundcube_def matchesApacheTag_def isDigit_def)

text \<open>What the version checks do guarantee: an unresolved current version, or a failed
  fetch, never reports an update.\<close>

lemma checkNpmPackage_current_unknown:
  "currentVersion (checkNpmPackage cname fetched installed) = ''unknown''
     \<Longrightarrow> \<not> updateAvailable (checkNpmPackage cname fetched installed)"
  by (simp add: checkNpmPackage_def Let_def split: sum.splits)

lemma check_fetch_failed:
  "\<not> updateAvailable (checkNpmPackage cname (Inl err) installed)"
  "\<not> updateAvailable (checkRoundcube (Inl err))"
  by (simp_all add: checkNpmPackage_def checkRoundcube_def)

lemma installUpdate_success: "success (installUpdate exec check)"
  by (simp add: installUpdate_def installCommands_def Let_def)

text \<open>
  C7 fails on the code. \<open>execSafe\<close> turns the exception of a failed command into the text
  \<^verbatim>\<open>EXEC ERROR: ...\<close>, so the \<^verbatim>\<open>catch\<close> block of \<open>installUpdate\<close> is never entered: the
  update whose command throws is recorded with \<open>success = True\<close>.
\<close>

theorem failed_command_reported_success:
  "installUpdate (\<lambda>cmd. Inl (JsError ''Command failed: npm install''))
     \<lparr>component = ''nestjs-core'', currentVersion = ''10.0.0'', latestVersion = ''10.4.1'',
      updateAvailable = True\<rparr> =
   \<lparr>UpdateResult.component = ''nestjs-core'', previousVersion = ''10.0.0'',
    newVersion = ''10.4.1'', success = True,
    logOutput = ''EXEC ERROR: Command failed: npm install''\<rparr>"
  by (simp add: installUpdate_def installCommands_def execSafe_def)

section \<open>Facts about the busy guard\<close>

text \<open>
  C10. A call of \<open>checkAndInstallAll\<close> while the busy flag is set leaves the whole state as
  it was: the progress record, the maintenance flag and the queue are untouched.
\<close>

theorem busy_call_changes_nothing:
  "isUpdating s \<Longrightarrow>
     snd (checkAndInstallAll env s) = s \<and>
     updateProgress (snd (checkAndInstallAll env s)) = updateProgress s \<and>
     maintenanceMode (snd (checkAndInstallAll env s)) = maintenanceMode s \<and>
     queuePaused (snd (checkAndInstallAll env s)) = queuePaused s"
  by (simp add: checkAndInstallAll_def)

theorem busy_call_changes_nothing_witness:
  "isUpdating busySystem \<and>
   snd (checkAndInstallAll (cycleEnv (diagEnv healthyProbes)) busySystem) = busySystem"
proof -
  have busy: "isUpdating busySystem" by (simp add: busySystem_def)
  from busy busy_call_changes_nothing [OF busy, of "cycleEnv (diagEnv healthyProbes)"]
  show ?thesis by simp
qed

text \<open>
  C3, as the code has it. While the busy flag is set, \<open>checkAndInstallAll\<close> returns no
  results and the status \<^verbatim>\<open>update-already-in-progress\<close>, adds no row to
  \<^verbatim>\<open>update_history\<close> and leaves the flag set; the scheduled trigger returns normally;
  the HTTP trigger \<open>runUpdater\<close> starts no cycle either, and answers \<^verbatim>\<open>accepted\<close>.
\<close>

theorem busy_trigger_rejected:
  "isUpdating s \<Longrightarrow>
     fst (checkAndInstallAll env s) =
       Inr \<lparr>results = [], diagnosticsStatus = ''update-already-in-progress''\<rparr> \<and>
     update_history (snd (checkAndInstallAll env s)) = update_history s \<and>
     isUpdating (snd (checkAndInstallAll env s)) \<and>
     fst (runScheduledUpdate env s) = Inr () \<and>
     update_history (snd (runScheduledUpdate env s)) = update_history s \<and>
     fst (runUpdater env s) =
       \<lparr>UpdaterResponse.message = ''Update check started'',
        UpdaterResponse.status = ''accepted''\<rparr> \<and>
     update_history (snd (runUpdater env s)) = update_history s"
  by (simp add: checkAndInstallAll_def runUpdater_def runScheduledUpdate_def)

theorem busy_trigger_rejected_witness:
  "isUpdating busySystem \<and>
   fst (checkAndInstallAll (cycleEnv (diagEnv healthyProbes)) busySystem) =
     Inr \<lparr>results = [], diagnosticsStatus = ''update-already-in-progress''\<rparr> \<and>
   update_history (snd (runUpdater (cycleEnv (diagEnv healthyProbes)) busySystem)) = []"
proof -
  have busy: "isUpdating busySystem" by (simp add: busySystem_def)
  have hist: "update_history busySystem = []" by (simp add: busySystem_def)
  from busy hist busy_trigger_rejected [OF busy, of "cycleEnv (diagEnv healthyProbes)"]
  show ?thesis by simp
qed

text \<open>C3 as stated fails for the HTTP trigger: on a busy system its answer is
  \<^verbatim>\<open>accepted\<close>, not \<^verbatim>\<open>already in progress\<close>.\<close>

theorem busy_http_trigger_accepted:
  "isUpdating busySystem \<and>
   fst (runUpdater (cycleEnv (diagEnv healthyProbes)) busySystem) =
     \<lparr>UpdaterResponse.message = ''Update check started'', UpdaterResponse.status = ''accepted''\<rparr>"
  by (simp add: runUpdater_def busySystem_def)

section \<open>Facts about the update cycle\<close>

declare repairLoop.simps [simp del]

lemma persistCheck_frame:
  "isUpdating (persistCheck outcome check s) = isUpdating s"
  "updateProgress (persistCheck outcome check s) = updateProgress s"
  "maintenanceMode (persistCheck outcome check s) = maintenanceMode s"
  "queuePaused (persistCheck outcome check s) = queuePaused s"
  "update_history (persistCheck outcome check s) = update_history s"
  by (simp_all add: persistCheck_def split: option.splits)

lemma persistAll_frame:
  "isUpdating (persistAll ins i cs s) = isUpdating s \<and>
   updateProgress (persistAll ins i cs s) = updateProgress s \<and>
   maintenanceMode (persistAll ins i cs s) = maintenanceMode s \<and>
   queuePaused (persistAll ins i cs s) = queuePaused s \<and>
   update_history (persistAll ins i cs s) = update_history s"
  by (induction cs arbitrary: i s) (simp_all add: persistCheck_frame)

lemma runFullDiagnostics_frame:
  "isUpdating (snd (runFullDiagnostics b d s)) = isUpdating s \<and>
   updateProgress (snd (runFullDiagnostics b d s)) = updateProgress s \<and>
   maintenanceMode (snd (runFullDiagnostics b d s)) = maintenanceMode s \<and>
   queuePaused (snd (runFullDiagnostics b d s)) = queuePaused s \<and>
   update_history (snd (runFullDiagnostics b d s)) = update_history s"
  by (simp add: runFullDiagnostics_def Let_def persistAll_frame split: sum.splits)

lemma setProgress_frame:
  "isUpdating (setProgress st msg prog cname s) = isUpdating s"
  "maintenanceMode (setProgress st msg prog cname s) = maintenanceMode s"
  "queuePaused (setProgress st msg prog cname s) = queuePaused s"
  "update_history (setProgress st msg prog cname s) = update_history s"
  "Progress.status (updateProgress (setProgress st msg prog cname s)) = st"
  by (simp_all add: setProgress_def)

lemma mail_diagnostics_persistAll:
  "mail_diagnostics (persistAll ins i cs s) = mail_diagnostics s @ persisted ins i cs"
  by (induction cs arbitrary: i s) (simp_all add: persistCheck_def split: option.splits)

lemma mail_diagnostics_setProgress:
  "mail_diagnostics (setProgress st msg prog cname s) = mail_diagnostics s"
  by (simp add: setProgress_def)

lemma mail_diagnostics_installAll:
  "mail_diagnostics (snd (installAll env i step pending acc s)) = mail_diagnostics s"
  by (induction pending arbitrary: i step acc s)
     (simp_all add: Let_def saveUpdateHistory_def setProgress_def split: option.splits)

lemma length_rowsOfRun:
  "insert_check d = (\<lambda>i. None) \<Longrightarrow> length (rowsOfRun d) = 4"
  by (simp add: rowsOfRun_def checks_buildReport)

lemma length_concat_runs:
  "(\<forall>k\<le>m. length (f k) = 4) \<Longrightarrow> length (concat (map f [0..<Suc m])) = 4 * Suc m"
  by (induction m) simp_all

text \<open>The number of re-runs is fixed by the reports: it is the first run that does not
  report error, and 3 when there is none among the runs 0 to 2.\<close>

lemma reruns_unique:
  assumes "m \<le> (3::nat)" "\<forall>k<m. E k" "m < 3 \<longrightarrow> \<not> E m"
    and "m' \<le> 3" "\<forall>k<m'. E k" "m' < 3 \<longrightarrow> \<not> E m'"
  shows "m = m'"
proof (rule ccontr)
  assume "m \<noteq> m'"
  then consider "m < m'" | "m' < m" by linarith
  then show False
  proof cases
    case 1
    with assms(4,5) have "E m" "m < 3" by auto
    with assms(3) show False by simp
  next
    case 2
    with assms(1,2) have "E m'" "m' < 3" by auto
    with assms(6) show False by simp
  qed
qed

text \<open>The repair loop started after \<open>n\<close> re-runs with the report \<open>rep\<close> of run \<open>n\<close>.\<close>

lemma repairLoop_result:
  assumes "n \<le> 3"
  shows "\<exists>m s'. repairLoop env rep n s = (Inr (if m = n then rep else buildReport (diagnostics env m), m), s')
           \<and> n \<le> m \<and> m \<le> 3
           \<and> (n < m \<longrightarrow> overall rep = ERROR)
           \<and> (\<forall>k. n < k \<and> k < m \<longrightarrow> overall (buildReport (diagnostics env k)) = ERROR)
           \<and> (m < 3 \<longrightarrow> overall (if m = n then rep else buildReport (diagnostics env m)) \<noteq> ERROR)
           \<and> isUpdating s' = isUpdating s \<and> maintenanceMode s' = maintenanceMode s
           \<and> queuePaused s' = queuePaused s \<and> update_history s' = update_history s
           \<and> mail_diagnostics s' =
               mail_diagnostics s @ concat (map (\<lambda>k. rowsOfRun (diagnostics env k)) [Suc n..<Suc m])"
  using assms
proof (induction env rep n s rule: repairLoop.induct)
  case (1 env rep n s)
  show ?case
  proof (cases "overall rep = ERROR \<and> n < 3")
    case False
    have "repairLoop env rep n s = (Inr (rep, n), s)"
      using False by (auto simp add: repairLoop.simps [of env rep n s])
    with False "1.prems" show ?thesis
      by (intro exI [of _ n] exI [of _ s]) auto
  next
    case True
    let ?s1 = "setProgress Repairing
                 (''Auto-repair attempt '' @ showNat (Suc n) @ ''/3'' @ hellip)
                 (85 + int (Suc n) * 4) None s"
    let ?d = "diagnostics env (Suc n)"
    let ?s2 = "persistAll (insert_check ?d) 0 (checks (buildReport ?d)) ?s1"
    have run: "runFullDiagnostics False ?d ?s1 = (Inr (buildReport ?d), ?s2)"
      by (rule runFullDiagnostics_False_eq)
    have unfold: "repairLoop env rep n s = repairLoop env (buildReport ?d) (Suc n) ?s2"
      using True by (simp add: repairLoop.simps [of env rep n s] Let_def runFullDiagnostics_False_eq)
    have fr: "isUpdating ?s2 = isUpdating s \<and> maintenanceMode ?s2 = maintenanceMode s
           \<and> queuePaused ?s2 = queuePaused s \<and> update_history ?s2 = update_history s"
      by (simp add: persistAll_frame setProgress_frame)
    from True have le: "Suc n \<le> 3" by simp
    from "1.IH" [OF True refl run [symmetric] refl le]
    obtain m s' where
      res: "repairLoop env (buildReport ?d) (Suc n) ?s2 =
              (Inr (if m = Suc n then buildReport ?d else buildReport (diagnostics env m), m), s')"
      and bounds: "Suc n \<le> m" "m \<le> 3"
      and first: "Suc n < m \<longrightarrow> overall (buildReport ?d) = ERROR"
      and between: "\<forall>k. Suc n < k \<and> k < m \<longrightarrow> overall (buildReport (diagnostics env k)) = ERROR"
      and last: "m < 3 \<longrightarrow>
          overall (if m = Suc n then buildReport ?d else buildReport (diagnostics env m)) \<noteq> ERROR"
      and fr': "isUpdating s' = isUpdating ?s2 \<and> maintenanceMode s' = maintenanceMode ?s2
           \<and> queuePaused s' = queuePaused ?s2 \<and> update_history s' = update_history ?s2"
      and rows: "mail_diagnostics s' =
              mail_diagnostics ?s2 @
              concat (map (\<lambda>k. rowsOfRun (diagnostics env k)) [Suc (Suc n)..<Suc m])"
      by blast
    have rows2: "mail_diagnostics ?s2 = mail_diagnostics s @ rowsOfRun ?d"
      by (simp add: mail_diagnostics_persistAll mail_diagnostics_setProgress rowsOfRun_def)
    have upt: "[Suc n..<Suc m] = Suc n # [Suc (Suc n)..<Suc m]"
      using bounds by (simp add: upt_conv_Cons)
    have rows': "mail_diagnostics s' =
              mail_diagnostics s @ concat (map (\<lambda>k. rowsOfRun (diagnostics env k)) [Suc n..<Suc m])"
      by (simp only: rows rows2 upt list.map concat.simps append_assoc)
    have same: "(if m = Suc n then buildReport ?d else buildReport (diagnostics env m))
                  = buildReport (diagnostics env m)"
      by simp
    have ne: "m \<noteq> n" using bounds by simp
    have res': "repairLoop env rep n s =
                  (Inr (if m = n then rep else buildReport (diagnostics env m), m), s')"
      using unfold res same ne by simp
    have between': "\<forall>k. n < k \<and> k < m \<longrightarrow> overall (buildReport (diagnostics env k)) = ERROR"
    proof (intro allI impI)
      fix k assume k: "n < k \<and> k < m"
      show "overall (buildReport (diagnostics env k)) = ERROR"
      proof (cases "k = Suc n")
        case True
        with k first show ?thesis by simp
      next
        case False
        with k between show ?thesis by simp
      qed
    qed
    have last': "m < 3 \<longrightarrow> overall (if m = n then rep else buildReport (diagnostics env m)) \<noteq> ERROR"
      using last same ne by simp
    show ?thesis
      using res' bounds True between' last' fr fr' rows'
      by (intro exI [of _ m] exI [of _ s']) simp
  qed
qed


lemma fst_installAll:
  "fst (installAll env i step pending acc s) = acc @ map (installUpdate (execSync env)) pending"
  by (induction pending arbitrary: i step acc s) (simp_all add: Let_def)

text \<open>The install loop handles every pending update, in order, and saves a row for each
  one whose \<^verbatim>\<open>INSERT\<close> succeeds.\<close>

lemma installAll_history:
  "insert_history env = (\<lambda>i. None) \<Longrightarrow>
   update_history (snd (installAll env i step pending acc s)) =
     update_history s @ map (\<lambda>check. historyRow (installUpdate (execSync env) check)) pending"
  by (induction pending arbitrary: i step acc s)
     (simp_all add: Let_def saveUpdateHistory_def setProgress_def)

lemma diagnoseAndRepair_result:
  assumes "select_previous (diagnostics env 0) = Inr prev"
  shows "\<exists>m s'. m \<le> 3
           \<and> (\<forall>k<m. overall (buildReport (diagnostics env k)) = ERROR)
           \<and> (m < 3 \<longrightarrow> overall (buildReport (diagnostics env m)) \<noteq> ERROR)
           \<and> diagnoseAndRepair env installed s =
               (Inr \<lparr>results = installed,
                     diagnosticsStatus = statusName (overall (buildReport (diagnostics env m)))\<rparr>, s')
           \<and> Progress.status (updateProgress s') =
               (if overall (buildReport (diagnostics env m)) = OK then Done else Failed)
           \<and> isUpdating s' = isUpdating s \<and> maintenanceMode s' = maintenanceMode s
           \<and> queuePaused s' = queuePaused s \<and> update_history s' = update_history s
           \<and> mail_diagnostics s' =
               mail_diagnostics s @ concat (map (\<lambda>k. rowsOfRun (diagnostics env k)) [0..<Suc m])"
proof -
  let ?d = "diagnostics env 0"
  let ?s1 = "persistAll (insert_check ?d) 0 (checks (buildReport ?d)) s"
  have first: "runFullDiagnostics True ?d s = (Inr (buildReport ?d), ?s1)"
    using assms by (rule runFullDiagnostics_True_eq)
  from repairLoop_result [of 0 env "buildReport ?d" ?s1]
  obtain m s2 where
    loop: "repairLoop env (buildReport ?d) 0 ?s1 =
             (Inr (if m = 0 then buildReport ?d else buildReport (diagnostics env m), m), s2)"
    and bound: "m \<le> 3"
    and start: "0 < m \<longrightarrow> overall (buildReport ?d) = ERROR"
    and between: "\<forall>k. 0 < k \<and> k < m \<longrightarrow> overall (buildReport (diagnostics env k)) = ERROR"
    and last: "m < 3 \<longrightarrow>
        overall (if m = 0 then buildReport ?d else buildReport (diagnostics env m)) \<noteq> ERROR"
    and fr: "isUpdating s2 = isUpdating ?s1 \<and> maintenanceMode s2 = maintenanceMode ?s1
           \<and> queuePaused s2 = queuePaused ?s1 \<and> update_history s2 = update_history ?s1"
    and rows: "mail_diagnostics s2 =
           mail_diagnostics ?s1 @ concat (map (\<lambda>k. rowsOfRun (diagnostics env k)) [Suc 0..<Suc m])"
    by auto
  have same: "(if m = 0 then buildReport ?d else buildReport (diagnostics env m))
                = buildReport (diagnostics env m)"
    by simp
  let ?final = "overall (buildReport (diagnostics env m))"
  let ?s' = "setProgress (if ?final = OK then Done else Failed)
               (if ?final = OK then ''All updates installed and system is stable.''
                else ''Updates installed but some checks still failing ''
                     @ ndash @ '' manual review needed.'')
               100 None s2"
  have res: "diagnoseAndRepair env installed s =
               (Inr \<lparr>results = installed, diagnosticsStatus = statusName ?final\<rparr>, ?s')"
    unfolding diagnoseAndRepair_def first
    by (simp only: loop same prod.case sum.case Let_def)
  have all: "\<forall>k<m. overall (buildReport (diagnostics env k)) = ERROR"
  proof (intro allI impI)
    fix k assume "k < m"
    then show "overall (buildReport (diagnostics env k)) = ERROR"
      using start between by (cases "k = 0") auto
  qed
  have last': "m < 3 \<longrightarrow> ?final \<noteq> ERROR"
    using last same by simp
  have st: "Progress.status (updateProgress ?s') = (if ?final = OK then Done else Failed)"
    by (simp only: setProgress_frame)
  have fr': "isUpdating ?s' = isUpdating s \<and> maintenanceMode ?s' = maintenanceMode s
           \<and> queuePaused ?s' = queuePaused s \<and> update_history ?s' = update_history s"
    using fr by (simp add: setProgress_frame persistAll_frame)
  have rows1: "mail_diagnostics ?s1 = mail_diagnostics s @ rowsOfRun ?d"
    by (simp add: mail_diagnostics_persistAll rowsOfRun_def)
  have upt: "[0..<Suc m] = 0 # [Suc 0..<Suc m]"
    by (simp add: upt_conv_Cons)
  have rows': "mail_diagnostics ?s' =
           mail_diagnostics s @ concat (map (\<lambda>k. rowsOfRun (diagnostics env k)) [0..<Suc m])"
    by (simp only: mail_diagnostics_setProgress rows rows1 upt list.map concat.simps append_assoc)
  show ?thesis
    using bound all last' res st fr' rows'
    by (intro exI [of _ m] exI [of _ ?s']) blast
qed

text \<open>The counter that the repair loop returns, whatever the state it starts in.\<close>

lemma repairLoop_counter:
  assumes "m \<le> 3"
    and "\<forall>k<m. overall (buildReport (diagnostics env k)) = ERROR"
    and "m < 3 \<longrightarrow> overall (buildReport (diagnostics env m)) \<noteq> ERROR"
  shows "fst (repairLoop env (buildReport (diagnostics env 0)) 0 s) =
           Inr (buildReport (diagnostics env m), m)"
proof -
  let ?E = "\<lambda>k. overall (buildReport (diagnostics env k)) = ERROR"
  let ?d = "diagnostics env 0"
  from repairLoop_result [of 0 env "buildReport ?d" s]
  obtain m' s' where
    loop: "repairLoop env (buildReport ?d) 0 s =
             (Inr (if m' = 0 then buildReport ?d else buildReport (diagnostics env m'), m'), s')"
    and bound: "m' \<le> 3"
    and start: "0 < m' \<longrightarrow> ?E 0"
    and between: "\<forall>k. 0 < k \<and> k < m' \<longrightarrow> ?E k"
    and last: "m' < 3 \<longrightarrow>
        overall (if m' = 0 then buildReport ?d else buildReport (diagnostics env m')) \<noteq> ERROR"
    by auto
  have all: "\<forall>k<m'. ?E k"
  proof (intro allI impI)
    fix k assume "k < m'"
    then show "?E k" using start between by (cases "k = 0") auto
  qed
  have last': "m' < 3 \<longrightarrow> \<not> ?E m'"
    using last by (cases "m' = 0") simp_all
  have "m = m'"
    using assms(1) assms(2) assms(3) bound all last' by (rule reruns_unique [of m ?E m'])
  with loop show ?thesis by (cases "m' = 0") simp_all
qed

lemma updateCycle_to_repair:
  assumes "filter updateAvailable (checkAll env) \<noteq> []"
    and "queue_pause env = None" and "queue_resume env = None"
  shows "\<exists>s6. updateCycle env s =
           diagnoseAndRepair env
             (map (installUpdate (execSync env)) (filter updateAvailable (checkAll env))) s6
           \<and> mail_diagnostics s6 = mail_diagnostics s"
proof -
  have "fst (installAll env 0 15 (filter updateAvailable (checkAll env)) [] s3)
          = map (installUpdate (execSync env)) (filter updateAvailable (checkAll env))" for s3
    by (simp add: fst_installAll)
  then show ?thesis
    using assms
    by (auto simp add: updateCycle_def Let_def enterMaintenanceMode_def exitMaintenanceMode_def
          case_prod_beta mail_diagnostics_setProgress mail_diagnostics_installAll)
qed

lemma cycle_reaches_repair_loop:
  assumes "\<not> isUpdating s"
    and "filter updateAvailable (checkAll env) \<noteq> []"
    and "queue_pause env = None" and "queue_resume env = None"
    and "select_previous (diagnostics env 0) = Inr prev"
  shows "\<exists>m\<le>3.
           (\<forall>k<m. overall (buildReport (diagnostics env k)) = ERROR) \<and>
           (m < 3 \<longrightarrow> overall (buildReport (diagnostics env m)) \<noteq> ERROR) \<and>
           (\<forall>s1. fst (repairLoop env (buildReport (diagnostics env 0)) 0 s1) =
                   Inr (buildReport (diagnostics env m), m)) \<and>
           mail_diagnostics (snd (checkAndInstallAll env s)) =
             mail_diagnostics s @
             concat (map (\<lambda>k. rowsOfRun (diagnostics env k)) [0..<Suc m]) \<and>
           ((\<forall>k\<le>m. insert_check (diagnostics env k) = (\<lambda>i. None)) \<longrightarrow>
              length (mail_diagnostics (snd (checkAndInstallAll env s))) =
                length (mail_diagnostics s) + 4 * Suc m) \<and>
           fst (checkAndInstallAll env s) =
             Inr \<lparr>results = map (installUpdate (execSync env))
                               (filter updateAvailable (checkAll env)),
                  diagnosticsStatus = statusName (overall (buildReport (diagnostics env m)))\<rparr> \<and>
           Progress.status (updateProgress (snd (checkAndInstallAll env s))) =
             (if overall (buildReport (diagnostics env m)) = OK then Done else Failed)"
proof -
  let ?installed = "map (installUpdate (execSync env)) (filter updateAvailable (checkAll env))"
  let ?rows = "\<lambda>k. rowsOfRun (diagnostics env k)"
  from updateCycle_to_repair [OF assms(2-4)]
  obtain s6 where
    cyc: "updateCycle env (s\<lparr>isUpdating := True\<rparr>) = diagnoseAndRepair env ?installed s6"
    and rows6: "mail_diagnostics s6 = mail_diagnostics (s\<lparr>isUpdating := True\<rparr>)"
    by blast
  from diagnoseAndRepair_result [OF assms(5), of ?installed s6]
  obtain m s' where m: "m \<le> 3"
    and all: "\<forall>k<m. overall (buildReport (diagnostics env k)) = ERROR"
    and last: "m < 3 \<longrightarrow> overall (buildReport (diagnostics env m)) \<noteq> ERROR"
    and res: "diagnoseAndRepair env ?installed s6 =
               (Inr \<lparr>results = ?installed,
                     diagnosticsStatus = statusName (overall (buildReport (diagnostics env m)))\<rparr>, s')"
    and st: "Progress.status (updateProgress s') =
               (if overall (buildReport (diagnostics env m)) = OK then Done else Failed)"
    and rows: "mail_diagnostics s' = mail_diagnostics s6 @ concat (map ?rows [0..<Suc m])"
    by blast
  have whole: "checkAndInstallAll env s =
          (Inr \<lparr>results = ?installed,
                diagnosticsStatus = statusName (overall (buildReport (diagnostics env m)))\<rparr>,
           s'\<lparr>isUpdating := False\<rparr>)"
    using assms(1) by (simp add: checkAndInstallAll_def cyc res)
  have counter: "\<forall>s1. fst (repairLoop env (buildReport (diagnostics env 0)) 0 s1) =
                   Inr (buildReport (diagnostics env m), m)"
    using repairLoop_counter [OF m all last] by blast
  have written: "mail_diagnostics (snd (checkAndInstallAll env s)) =
                   mail_diagnostics s @ concat (map ?rows [0..<Suc m])"
    by (simp add: whole rows rows6)
  have count: "(\<forall>k\<le>m. insert_check (diagnostics env k) = (\<lambda>i. None)) \<longrightarrow>
              length (mail_diagnostics (snd (checkAndInstallAll env s))) =
                length (mail_diagnostics s) + 4 * Suc m"
  proof
    assume ok: "\<forall>k\<le>m. insert_check (diagnostics env k) = (\<lambda>i. None)"
    then have "\<forall>k\<le>m. length (?rows k) = 4"
      by (simp add: length_rowsOfRun)
    then have "length (concat (map ?rows [0..<Suc m])) = 4 * Suc m"
      by (rule length_concat_runs)
    then show "length (mail_diagnostics (snd (checkAndInstallAll env s))) =
                length (mail_diagnostics s) + 4 * Suc m"
      by (simp only: written length_append)
  qed
  have ret: "fst (checkAndInstallAll env s) =
             Inr \<lparr>results = ?installed,
                  diagnosticsStatus = statusName (overall (buildReport (diagnostics env m)))\<rparr>"
    by (simp add: whole)
  have fin: "Progress.status (updateProgress (snd (checkAndInstallAll env s))) =
             (if overall (buildReport (diagnostics env m)) = OK then Done else Failed)"
    by (simp add: whole st)
  from m all last counter written count ret fin show ?thesis
    by (intro exI [of _ m]) blast
qed

text \<open>
  C2, as the code has it. For every update cycle that reaches the repair loop (updates
  are pending, the queue pauses and resumes, the before/after query succeeds) there is a
  number \<open>m\<close> of re-runs, at most 3, such that every diagnostics run before run \<open>m\<close>
  reported error and, when \<open>m < 3\<close>, run \<open>m\<close> did not. The repair loop stops with its
  counter at \<open>m\<close> and the report of run \<open>m\<close> as the last report. The cycle performs
  exactly the runs 0 to \<open>m\<close>: it appends their rows, and no others, to
  \<^verbatim>\<open>mail_diagnostics\<close> (four rows for each run when every insert succeeds). It returns
  the overall status of run \<open>m\<close>, and its terminal status is done exactly when that overall
  status is ok, and failed otherwise (warning, or error after the third re-run).
\<close>

theorem repair_loop_terminal_status:
  assumes "\<not> isUpdating s"
    and "filter updateAvailable (checkAll env) \<noteq> []"
    and "queue_pause env = None" and "queue_resume env = None"
    and "select_previous (diagnostics env 0) = Inr prev"
  shows "\<exists>m\<le>3.
           (\<forall>k<m. overall (buildReport (diagnostics env k)) = ERROR) \<and>
           (m < 3 \<longrightarrow> overall (buildReport (diagnostics env m)) \<noteq> ERROR) \<and>
           (\<forall>s1. fst (repairLoop env (buildReport (diagnostics env 0)) 0 s1) =
                   Inr (buildReport (diagnostics env m), m)) \<and>
           mail_diagnostics (snd (checkAndInstallAll env s)) =
             mail_diagnostics s @
             concat (map (\<lambda>k. rowsOfRun (diagnostics env k)) [0..<Suc m]) \<and>
           ((\<forall>k\<le>m. insert_check (diagnostics env k) = (\<lambda>i. None)) \<longrightarrow>
              length (mail_diagnostics (snd (checkAndInstallAll env s))) =
                length (mail_diagnostics s) + 4 * Suc m) \<and>
           fst (checkAndInstallAll env s) =
             Inr \<lparr>results = map (installUpdate (execSync env))
                               (filter updateAvailable (checkAll env)),
                  diagnosticsStatus = statusName (overall (buildReport (diagnostics env m)))\<rparr> \<and>
           Progress.status (updateProgress (snd (checkAndInstallAll env s))) =
             (if overall (buildReport (diagnostics env m)) = OK then Done else Failed)"
  using assms by (rule cycle_reaches_repair_loop)

section \<open>The update cycle on the concrete environments\<close>

lemma pending_cycleEnv:
  "filter updateAvailable (checkAll (cycleEnv d)) =
     [\<lparr>component = ''roundcube'', currentVersion = ''1.6-apache'', latestVersion = ''1.7-apache'',
       updateAvailable = True\<rparr>]"
  by (simp add: checkAll_def cycleEnv_def checkRoundcube_def checkNpmPackage_def
        matchesApacheTag_def isDigit_def Let_def)

lemma cycleEnv_fields:
  "queue_pause (cycleEnv d) = None"
  "queue_resume (cycleEnv d) = None"
  "queue_resume_in_catch (cycleEnv d) = None"
  "diagnostics (cycleEnv d) k = d"
  by (simp_all add: cycleEnv_def)

lemma stuckEnv_fields:
  "queue_pause stuckEnv = None"
  "queue_resume stuckEnv = Some (JsError ''Connection is closed.'')"
  "queue_resume_in_catch stuckEnv = Some (JsError ''Connection is closed.'')"
  "insert_history stuckEnv = (\<lambda>i. None)"
  "checkAll stuckEnv = checkAll (cycleEnv (diagEnv healthyProbes))"
  by (simp_all add: stuckEnv_def cycleEnv_def checkAll_def)

lemma select_previous_diagEnv: "select_previous (diagEnv p) = Inr []"
  by (simp add: diagEnv_def probed_def)

lemma overall_unconfigured: "overall (buildReport (diagEnv unconfiguredProbes)) = WARNING"
  by (simp add: buildReport_def Let_def overallOf_def diagEnv_def probed_def unwrap_def
        healthChecks_nth unconfiguredProbes_def healthyProbes_def checkSmtp_def checkImap_def
        checkSslCertificate_def checkRoundcubeHealth_def falsy_def daysUntilExpiry_def)

lemma overall_healthy: "overall (buildReport (diagEnv healthyProbes)) = OK"
  by (simp add: buildReport_def Let_def overallOf_def diagEnv_def probed_def unwrap_def
        healthChecks_nth healthyProbes_def checkSmtp_def checkImap_def
        checkSslCertificate_def checkRoundcubeHealth_def falsy_def daysUntilExpiry_def)

lemma idleSystem_not_busy: "\<not> isUpdating idleSystem"
  by (simp add: idleSystem_def)

lemma overall_broken: "overall (buildReport (diagEnv brokenProbes)) = ERROR"
  by (simp add: buildReport_def Let_def overallOf_def diagEnv_def probed_def unwrap_def
        healthChecks_nth brokenProbes_def healthyProbes_def checkSmtp_def checkImap_def
        checkSslCertificate_def checkRoundcubeHealth_def falsy_def daysUntilExpiry_def)

lemma insert_check_diagEnv: "insert_check (diagEnv p) = (\<lambda>i. None)"
  by (simp add: diagEnv_def probed_def)

lemma recoveringEnv_fields:
  "queue_pause recoveringEnv = None"
  "queue_resume recoveringEnv = None"
  "diagnostics recoveringEnv k = (if k < 2 then diagEnv brokenProbes else diagEnv healthyProbes)"
  "checkAll recoveringEnv = checkAll (cycleEnv (diagEnv healthyProbes))"
  by (simp_all add: recoveringEnv_def cycleEnv_def checkAll_def)

lemma idleSystem_no_rows: "mail_diagnostics idleSystem = []"
  by (simp add: idleSystem_def)

text \<open>
  On the recovering system the cycle installs the Roundcube update, the run after the
  installations and the first re-run report error, the second re-run reports ok: the
  loop stops after 2 re-runs, the three runs leave 12 rows, and the cycle ends done.
\<close>

theorem repair_loop_terminal_status_witness:
  "\<not> isUpdating idleSystem \<and>
   filter updateAvailable (checkAll recoveringEnv) \<noteq> [] \<and>
   queue_pause recoveringEnv = None \<and>
   queue_resume recoveringEnv = None \<and>
   select_previous (diagnostics recoveringEnv 0) = Inr [] \<and>
   fst (repairLoop recoveringEnv (buildReport (diagnostics recoveringEnv 0)) 0 idleSystem)
     = Inr (buildReport (diagEnv healthyProbes), 2) \<and>
   length (mail_diagnostics (snd (checkAndInstallAll recoveringEnv idleSystem))) = 12 \<and>
   Progress.status (updateProgress (snd (checkAndInstallAll recoveringEnv idleSystem))) = Done"
proof -
  let ?E = "\<lambda>k. overall (buildReport (diagnostics recoveringEnv k)) = ERROR"
  have h2: "filter updateAvailable (checkAll recoveringEnv) \<noteq> []"
    by (simp add: recoveringEnv_fields pending_cycleEnv)
  have h3: "queue_pause recoveringEnv = None" and h4: "queue_resume recoveringEnv = None"
    by (simp_all add: recoveringEnv_fields)
  have h5: "select_previous (diagnostics recoveringEnv 0) = Inr []"
    by (simp add: recoveringEnv_fields select_previous_diagEnv)
  have two: "(2::nat) \<le> 3" "\<forall>k<2. ?E k" "(2::nat) < 3 \<longrightarrow> \<not> ?E 2"
    by (simp_all add: recoveringEnv_fields overall_broken overall_healthy)
  have ins: "\<forall>k\<le>2. insert_check (diagnostics recoveringEnv k) = (\<lambda>i. None)"
    by (simp add: recoveringEnv_fields insert_check_diagEnv)
  from repair_loop_terminal_status [OF idleSystem_not_busy h2 h3 h4 h5]
  obtain m where m: "m \<le> 3" "\<forall>k<m. ?E k" "m < 3 \<longrightarrow> \<not> ?E m"
    and counter: "\<forall>s1. fst (repairLoop recoveringEnv (buildReport (diagnostics recoveringEnv 0)) 0 s1)
                    = Inr (buildReport (diagnostics recoveringEnv m), m)"
    and count: "(\<forall>k\<le>m. insert_check (diagnostics recoveringEnv k) = (\<lambda>i. None)) \<longrightarrow>
              length (mail_diagnostics (snd (checkAndInstallAll recoveringEnv idleSystem))) =
                length (mail_diagnostics idleSystem) + 4 * Suc m"
    and fin: "Progress.status (updateProgress (snd (checkAndInstallAll recoveringEnv idleSystem))) =
             (if overall (buildReport (diagnostics recoveringEnv m)) = OK then Done else Failed)"
    by blast
  have m2: "m = 2"
    using m two by (rule reruns_unique [of m ?E 2])
  have c: "fst (repairLoop recoveringEnv (buildReport (diagnostics recoveringEnv 0)) 0 idleSystem)
             = Inr (buildReport (diagEnv healthyProbes), 2)"
    using counter by (simp add: m2 recoveringEnv_fields)
  have l: "length (mail_diagnostics (snd (checkAndInstallAll recoveringEnv idleSystem))) = 12"
    using count ins by (simp add: m2 idleSystem_no_rows)
  have f: "Progress.status (updateProgress (snd (checkAndInstallAll recoveringEnv idleSystem))) = Done"
    using fin by (simp add: m2 recoveringEnv_fields overall_healthy)
  from idleSystem_not_busy h2 h3 h4 h5 c l f show ?thesis by simp
qed

text \<open>
  C2 as stated fails when the last report is a warning: without SMTP credentials the
  first diagnostics run has overall status warning, the repair loop does not run (the
  cycle leaves the four rows of that one run), the cycle returns \<^verbatim>\<open>warning\<close> and the
  terminal status is failed.
\<close>

theorem warning_ends_failed:
  "overall (buildReport (diagEnv unconfiguredProbes)) = WARNING \<and>
   length (mail_diagnostics
      (snd (checkAndInstallAll (cycleEnv (diagEnv unconfiguredProbes)) idleSystem))) = 4 \<and>
   map_sum id diagnosticsStatus
     (fst (checkAndInstallAll (cycleEnv (diagEnv unconfiguredProbes)) idleSystem))
     = Inr ''warning'' \<and>
   Progress.status (updateProgress
      (snd (checkAndInstallAll (cycleEnv (diagEnv unconfiguredProbes)) idleSystem))) = Failed"
proof -
  let ?env = "cycleEnv (diagEnv unconfiguredProbes)"
  let ?E = "\<lambda>k. overall (buildReport (diagnostics ?env k)) = ERROR"
  have h2: "filter updateAvailable (checkAll ?env) \<noteq> []" by (simp add: pending_cycleEnv)
  have h3: "queue_pause ?env = None" and h4: "queue_resume ?env = None"
    by (simp_all add: cycleEnv_fields)
  have h5: "select_previous (diagnostics ?env 0) = Inr []"
    by (simp add: cycleEnv_fields select_previous_diagEnv)
  have zero: "(0::nat) \<le> 3" "\<forall>k<0. ?E k" "(0::nat) < 3 \<longrightarrow> \<not> ?E 0"
    by (simp_all add: cycleEnv_fields overall_unconfigured)
  from cycle_reaches_repair_loop [OF idleSystem_not_busy h2 h3 h4 h5]
  obtain m where m: "m \<le> 3" "\<forall>k<m. ?E k" "m < 3 \<longrightarrow> \<not> ?E m"
    and count: "(\<forall>k\<le>m. insert_check (diagnostics ?env k) = (\<lambda>i. None)) \<longrightarrow>
              length (mail_diagnostics (snd (checkAndInstallAll ?env idleSystem))) =
                length (mail_diagnostics idleSystem) + 4 * Suc m"
    and ret: "fst (checkAndInstallAll ?env idleSystem) =
             Inr \<lparr>results = map (installUpdate (execSync ?env))
                               (filter updateAvailable (checkAll ?env)),
                  diagnosticsStatus = statusName (overall (buildReport (diagnostics ?env m)))\<rparr>"
    and fin: "Progress.status (updateProgress (snd (checkAndInstallAll ?env idleSystem))) =
             (if overall (buildReport (diagnostics ?env m)) = OK then Done else Failed)"
    by blast
  have m0: "m = 0"
    using m zero by (rule reruns_unique [of m ?E 0])
  have l: "length (mail_diagnostics (snd (checkAndInstallAll ?env idleSystem))) = 4"
    using count by (simp add: m0 cycleEnv_fields insert_check_diagEnv idleSystem_no_rows)
  have r: "map_sum id diagnosticsStatus (fst (checkAndInstallAll ?env idleSystem)) = Inr ''warning''"
    by (simp add: ret cycleEnv_fields overall_unconfigured statusName_def)
  have f: "Progress.status (updateProgress (snd (checkAndInstallAll ?env idleSystem))) = Failed"
    using fin by (simp add: cycleEnv_fields overall_unconfigured)
  from overall_unconfigured l r f show ?thesis by simp
qed

text \<open>What the \<^verbatim>\<open>catch\<close> and \<^verbatim>\<open>finally\<close> blocks do guarantee.\<close>

lemma busy_flag_cleared:
  "\<not> isUpdating s \<Longrightarrow> \<not> isUpdating (snd (checkAndInstallAll env s))"
  by (simp add: checkAndInstallAll_def Let_def exitMaintenanceMode_def
        split: prod.splits sum.splits option.splits)

lemma exception_handled:
  assumes "\<not> isUpdating s"
    and "updateCycle env (s\<lparr>isUpdating := True\<rparr>) = (Inl (err, collected), s1)"
    and "queue_resume_in_catch env = None"
  shows "fst (checkAndInstallAll env s) = Inr \<lparr>results = collected, diagnosticsStatus = ''error''\<rparr>"
    and "Progress.status (updateProgress (snd (checkAndInstallAll env s))) = Failed"
    and "\<not> maintenanceMode (snd (checkAndInstallAll env s))"
    and "\<not> queuePaused (snd (checkAndInstallAll env s))"
  using assms
  by (simp_all add: checkAndInstallAll_def Let_def exitMaintenanceMode_def setProgress_def)

lemma exception_in_handler:
  assumes "\<not> isUpdating s"
    and "updateCycle env (s\<lparr>isUpdating := True\<rparr>) = (Inl (err, collected), s1)"
    and "queue_resume_in_catch env = Some thrown"
  shows "fst (checkAndInstallAll env s) = Inl thrown"
    and "Progress.status (updateProgress (snd (checkAndInstallAll env s))) = Failed"
    and "maintenanceMode (snd (checkAndInstallAll env s)) = maintenanceMode s1"
    and "queuePaused (snd (checkAndInstallAll env s)) = queuePaused s1"
  using assms
  by (simp_all add: checkAndInstallAll_def Let_def exitMaintenanceMode_def setProgress_def)

lemma stuck_cycle:
  "fst (checkAndInstallAll stuckEnv idleSystem) = Inl (JsError ''Connection is closed.'')"
  "maintenanceMode (snd (checkAndInstallAll stuckEnv idleSystem))"
  "queuePaused (snd (checkAndInstallAll stuckEnv idleSystem))"
  "\<not> isUpdating (snd (checkAndInstallAll stuckEnv idleSystem))"
  "Progress.status (updateProgress (snd (checkAndInstallAll stuckEnv idleSystem))) = Failed"
  by (simp_all add: checkAndInstallAll_def updateCycle_def Let_def stuckEnv_fields pending_cycleEnv
      idleSystem_def enterMaintenanceMode_def exitMaintenanceMode_def
      setProgress_def saveUpdateHistory_def case_prod_beta)

text \<open>
  C9 fails on the code. When \<^verbatim>\<open>emailQueue.resume()\<close> rejects after the installations and
  again in the \<^verbatim>\<open>catch\<close> block, the exception of the second call leaves
  \<open>checkAndInstallAll\<close>: the status is failed and the busy flag is cleared, but the
  maintenance flag is still set and the queue is still paused.
\<close>

theorem failed_resume_leaves_maintenance_mode:
  "\<not> isUpdating idleSystem \<and> \<not> maintenanceMode idleSystem \<and>
   fst (checkAndInstallAll stuckEnv idleSystem) = Inl (JsError ''Connection is closed.'') \<and>
   Progress.status (updateProgress (snd (checkAndInstallAll stuckEnv idleSystem))) = Failed \<and>
   \<not> isUpdating (snd (checkAndInstallAll stuckEnv idleSystem)) \<and>
   maintenanceMode (snd (checkAndInstallAll stuckEnv idleSystem)) \<and>
   queuePaused (snd (checkAndInstallAll stuckEnv idleSystem))"
  using stuck_cycle by (simp add: idleSystem_def)

text \<open>
  C6 fails on the code. \<open>runFullDiagnostics\<close> with the before/after report throws when
  the query of \<open>logBeforeAfterReport\<close> fails, and the scheduled update throws when the
  queue cannot be resumed in the \<^verbatim>\<open>catch\<close> block.
\<close>

theorem before_after_query_failure_propagates:
  "fst (runFullDiagnostics True dbDownDiag idleSystem) = Inl (JsError ''Connection terminated'') \<and>
   fst (runScheduledUpdate stuckEnv idleSystem) = Inl (JsError ''Connection is closed.'')"
proof -
  have "select_previous dbDownDiag = Inl (JsError ''Connection terminated'')"
    by (simp add: dbDownDiag_def probed_def)
  then have a: "fst (runFullDiagnostics True dbDownDiag idleSystem)
                  = Inl (JsError ''Connection terminated'')"
    by (simp add: runFullDiagnostics_True_throws)
  have b: "fst (runScheduledUpdate stuckEnv idleSystem) = Inl (JsError ''Connection is closed.'')"
    using stuck_cycle(1)
    by (cases "checkAndInstallAll stuckEnv idleSystem")
       (auto simp add: runScheduledUpdate_def split: sum.splits)
  from a b show ?thesis by simp
qed

end
